theory Spec2Isabelle
  imports Complex_Main
begin

section \<open>Python strings\<close>

text \<open>
  A Python \<^verbatim>\<open>str\<close> is a \<^typ>\<open>string\<close>; a character is read as the code point of the same
  number, so the model covers the code points below 256.
  \<^verbatim>\<open>s.startswith(p)\<close> and \<^verbatim>\<open>s.replace(old, new)\<close> (every occurrence, left to right, not
  overlapping; an empty \<^verbatim>\<open>old\<close> matches before every character and at the end).
\<close>

fun startswith :: "string \<Rightarrow> string \<Rightarrow> bool" where
  "startswith s [] = True"
| "startswith [] (p # ps) = False"
| "startswith (c # cs) (p # ps) = (c = p \<and> startswith cs ps)"

fun replace_str :: "string \<Rightarrow> string \<Rightarrow> string \<Rightarrow> string" where
  "replace_str s [] new = new @ concat (map (\<lambda>c. c # new) s)"
| "replace_str [] (p # ps) new = []"
| "replace_str (c # cs) (p # ps) new =
     (if startswith (c # cs) (p # ps)
      then new @ replace_str (drop (length ps) cs) (p # ps) new
      else c # replace_str cs (p # ps) new)"

text \<open>
  \<^verbatim>\<open>str(x)\<close> inside an f-string, for a value that is a string or \<^verbatim>\<open>None\<close>
  (\<^verbatim>\<open>data.get('error_description')\<close>).
\<close>

definition py_str :: "string option \<Rightarrow> string" where
  "py_str v = (case v of None \<Rightarrow> ''None'' | Some s \<Rightarrow> s)"

text \<open>
  \<^verbatim>\<open>repr\<close> of a \<^verbatim>\<open>str\<close>, which is what formatting a \<^verbatim>\<open>dict\<close> into an f-string applies to
  its keys and values: single quotes, unless the text has a single quote and no double
  quote; the quote and the backslash escaped; tab, newline and carriage return as
  \<^verbatim>\<open>\t\<close>, \<^verbatim>\<open>\n\<close>, \<^verbatim>\<open>\r\<close>; every other non-printable code point as \<^verbatim>\<open>\xhh\<close>. Below 256 the
  non-printable code points are the controls (below 32, and 127 to 159), the no-break
  space 160 and the soft hyphen 173.
\<close>

definition squote :: char where
  "squote = CHR 0x27"

definition dquote :: char where
  "dquote = CHR 0x22"

definition backslash :: char where
  "backslash = CHR 0x5C"

definition hexdigit :: "nat \<Rightarrow> char" where
  "hexdigit n = ''0123456789abcdef'' ! (n mod 16)"

definition isprintable :: "char \<Rightarrow> bool" where
  "isprintable c =
     (let n = (of_char c :: nat)
      in (32 \<le> n \<and> n < 127) \<or> (160 < n \<and> n \<noteq> 173))"

definition repr_char :: "char \<Rightarrow> char \<Rightarrow> string" where
  "repr_char q c =
     (if c = q \<or> c = backslash then [backslash, c]
      else if c = CHR 0x09 then [backslash, CHR ''t'']
      else if c = CHR 0x0A then [backslash, CHR ''n'']
      else if c = CHR 0x0D then [backslash, CHR ''r'']
      else if isprintable c then [c]
      else [backslash, CHR ''x'', hexdigit (of_char c div 16), hexdigit (of_char c)])"

definition py_repr :: "string \<Rightarrow> string" where
  "py_repr s =
     (let q = (if squote \<in> set s \<and> dquote \<notin> set s then dquote else squote)
      in [q] @ concat (map (repr_char q) s) @ [q])"

section \<open>The credential and the clock\<close>

text \<open>
  \<^verbatim>\<open>qwen_client.py\<close> keeps one OAuth credential, in memory (\<^verbatim>\<open>self._oauth_creds\<close>) and in
  the file \<^verbatim>\<open>~/.qwen/oauth_creds.json\<close>. The dataclasses are records whose fields carry
  the types the dataclasses annotate. \<^verbatim>\<open>time.time()\<close> is a real number of seconds;
  \<^verbatim>\<open>int(time.time())\<close> is its floor (the epoch is positive).
\<close>

record OAuthCreds =
  access_token :: string
  refresh_token :: string
  token_type :: string
  resource_url :: string
  expiry_date :: int

record DeviceAuth =
  device_code :: string
  user_code :: string
  verification_uri :: string
  verification_uri_complete :: string
  expires_in :: int

definition API_BASE_URL :: string where
  "API_BASE_URL = ''https://dashscope.aliyuncs.com/compatible-mode/v1''"

text \<open>
  Every \<^verbatim>\<open>raise\<close> of the module and of the library calls it makes is a value. The module
  itself raises only \<^verbatim>\<open>Exception(message)\<close>; the other constructors are the exceptions of
  \<^verbatim>\<open>dict[key]\<close>, of a dataclass constructor given the wrong keywords, of an attribute
  read on \<^verbatim>\<open>None\<close>, of \<^verbatim>\<open>json.load\<close> and \<^verbatim>\<open>response.json()\<close>, of
  \<^verbatim>\<open>response.raise_for_status()\<close> and of \<^verbatim>\<open>requests.post\<close>. All of them are subclasses of
  \<^verbatim>\<open>Exception\<close>, so \<^verbatim>\<open>except Exception\<close> catches each.
\<close>

datatype exn =
    Exception string
  | KeyError string
  | TypeError
  | AttributeError
  | JSONDecodeError
  | HTTPError int
  | ConnectionError

text \<open>
  What a JSON text is to the code that reads it into a dataclass with
  \<^verbatim>\<open>Cls(**json)\<close>: \<^verbatim>\<open>Malformed\<close> text makes the JSON parser raise, a \<^verbatim>\<open>Misshapen\<close> document
  parses but is not an object with exactly the fields of the dataclass (the constructor
  raises \<^verbatim>\<open>TypeError\<close>), a \<^verbatim>\<open>Wellformed\<close> one gives the instance.
\<close>

datatype 'a parsed = Malformed | Misshapen | Wellformed 'a

text \<open>
  The JSON object of a token-endpoint response, as the dictionary \<^verbatim>\<open>data\<close>: a key that is
  missing is \<^verbatim>\<open>None\<close> here, so \<^verbatim>\<open>data[key]\<close> raises \<^verbatim>\<open>KeyError\<close> there and \<^verbatim>\<open>data.get(key)\<close>
  gives \<^verbatim>\<open>None\<close> or the default.
\<close>

record token_body =
  tb_access_token :: "string option"
  tb_refresh_token :: "string option"
  tb_token_type :: "string option"
  tb_resource_url :: "string option"
  tb_expires_in :: "int option"
  tb_error :: "string option"
  tb_error_description :: "string option"

text \<open>
  A \<^verbatim>\<open>requests\<close> response: its status and what \<^verbatim>\<open>response.json()\<close> makes of its body. One
  call of \<^verbatim>\<open>requests.post\<close> takes some time and either raises or returns a response.
\<close>

record 'b response =
  status_code :: int
  json_body :: 'b

record 'r reply =
  delay :: real
  outcome :: "exn + 'r"

text \<open>
  The response of the chat endpoint: \<^verbatim>\<open>response.json()\<close> (\<^verbatim>\<open>None\<close> when the body is not
  JSON) and the chunks \<^verbatim>\<open>response.iter_content\<close> yields.
\<close>

record chat_body =
  chat_json :: "string option"
  chat_chunks :: "string list"

text \<open>What the module does to the outside, in order.\<close>

datatype grant = DeviceCodeGrant string | RefreshTokenGrant string

datatype event =
    Sleep real
  | TokenPost grant
  | DevicePost
  | ChatPost string string bool
  | Refresh
  | Authenticate
  | ShowUrl string

text \<open>
  The state the client runs in: the clock, the credential in memory and in the file, the
  replies the three endpoints will give to the next requests (a request beyond the end of
  a script finds the endpoint unreachable), and the log of effects. The PKCE pair is random
  and only travels in request payloads; it is not part of the state.
\<close>

record world =
  clock :: real
  oauth_creds :: "OAuthCreds option"
  creds_file :: "OAuthCreds parsed option"
  token_endpoint :: "token_body option response reply list"
  device_endpoint :: "DeviceAuth parsed response reply list"
  chat_endpoint :: "chat_body response reply list"
  events :: "event list"

type_synonym 'a result = "(exn + 'a) \<times> world"

definition log_event :: "event \<Rightarrow> world \<Rightarrow> world" where
  "log_event e w = w\<lparr>events := events w @ [e]\<rparr>"

definition sleep :: "real \<Rightarrow> world \<Rightarrow> world" where
  "sleep d w = log_event (Sleep d) (w\<lparr>clock := clock w + d\<rparr>)"

definition post_token :: "grant \<Rightarrow> world \<Rightarrow> token_body option response result" where
  "post_token g w =
     (case token_endpoint w of
        [] \<Rightarrow> (Inl ConnectionError, log_event (TokenPost g) w)
      | r # rs \<Rightarrow>
          (outcome r,
           log_event (TokenPost g) (w\<lparr>clock := clock w + delay r, token_endpoint := rs\<rparr>)))"

definition post_device :: "world \<Rightarrow> DeviceAuth parsed response result" where
  "post_device w =
     (case device_endpoint w of
        [] \<Rightarrow> (Inl ConnectionError, log_event DevicePost w)
      | r # rs \<Rightarrow>
          (outcome r,
           log_event DevicePost (w\<lparr>clock := clock w + delay r, device_endpoint := rs\<rparr>)))"

definition post_chat :: "string \<Rightarrow> string \<Rightarrow> bool \<Rightarrow> world \<Rightarrow> chat_body response result" where
  "post_chat url authorization stream w =
     (case chat_endpoint w of
        [] \<Rightarrow> (Inl ConnectionError, log_event (ChatPost url authorization stream) w)
      | r # rs \<Rightarrow>
          (outcome r,
           log_event (ChatPost url authorization stream)
             (w\<lparr>clock := clock w + delay r, chat_endpoint := rs\<rparr>)))"

text \<open>\<^verbatim>\<open>response.raise_for_status()\<close> raises for the statuses 400 to 599.\<close>

definition raises_for_status :: "int \<Rightarrow> bool" where
  "raises_for_status status = (400 \<le> status \<and> status < 600)"

section \<open>The credential store\<close>

text \<open>
  \<^verbatim>\<open>_load_oauth_creds\<close>: \<^verbatim>\<open>None\<close> when the file does not exist; otherwise \<^verbatim>\<open>json.load\<close> and
  the dataclass constructor run with no handler around them.
\<close>

definition load_oauth_creds :: "OAuthCreds parsed option \<Rightarrow> exn + OAuthCreds option" where
  "load_oauth_creds file =
     (case file of
        None \<Rightarrow> Inr None
      | Some Malformed \<Rightarrow> Inl JSONDecodeError
      | Some Misshapen \<Rightarrow> Inl TypeError
      | Some (Wellformed creds) \<Rightarrow> Inr (Some creds))"

text \<open>\<^verbatim>\<open>_save_oauth_creds\<close> writes the file and sets the credential in memory.\<close>

definition save_oauth_creds :: "OAuthCreds \<Rightarrow> world \<Rightarrow> world" where
  "save_oauth_creds creds w = w\<lparr>creds_file := Some (Wellformed creds), oauth_creds := Some creds\<rparr>"

text \<open>
  \<^verbatim>\<open>_is_token_expired\<close>: an absent credential is expired; a present one is expired when
  \<^verbatim>\<open>expiry_date < time.time() - 30\<close>. A dataclass instance is always truthy, so
  \<^verbatim>\<open>not self._oauth_creds\<close> holds exactly for \<^verbatim>\<open>None\<close>.
\<close>

definition is_token_expired :: "OAuthCreds option \<Rightarrow> real \<Rightarrow> bool" where
  "is_token_expired creds now =
     (case creds of
        None \<Rightarrow> True
      | Some c \<Rightarrow> of_int (expiry_date c) < now - 30)"

section \<open>The device flow\<close>

text \<open>
  \<^verbatim>\<open>_perform_device_auth\<close>: one request to the device-code endpoint,
  \<^verbatim>\<open>raise_for_status\<close>, then \<^verbatim>\<open>DeviceAuth(**response.json())\<close>.
\<close>

definition perform_device_auth :: "world \<Rightarrow> DeviceAuth result" where
  "perform_device_auth w =
     (case post_device w of
        (Inl e, w1) \<Rightarrow> (Inl e, w1)
      | (Inr response, w1) \<Rightarrow>
          if raises_for_status (status_code response)
          then (Inl (HTTPError (status_code response)), w1)
          else (case json_body response of
                  Malformed \<Rightarrow> (Inl JSONDecodeError, w1)
                | Misshapen \<Rightarrow> (Inl TypeError, w1)
                | Wellformed device_auth \<Rightarrow> (Inr device_auth, w1)))"

text \<open>
  The success branch of \<^verbatim>\<open>_poll_for_token\<close> (lines 119 to 130): the expiry is
  \<^verbatim>\<open>int(time.time()) + data["expires_in"]\<close>, the three required keys are read in the
  source's order, \<^verbatim>\<open>resource_url\<close> defaults to \<^verbatim>\<open>API_BASE_URL.replace("/v1", "")\<close>, and the
  credential is saved and returned.
\<close>

definition poll_success :: "token_body \<Rightarrow> world \<Rightarrow> OAuthCreds result" where
  "poll_success data w =
     (case tb_expires_in data of
        None \<Rightarrow> (Inl (KeyError ''expires_in''), w)
      | Some ttl \<Rightarrow>
     (case tb_access_token data of
        None \<Rightarrow> (Inl (KeyError ''access_token''), w)
      | Some access \<Rightarrow>
     (case tb_refresh_token data of
        None \<Rightarrow> (Inl (KeyError ''refresh_token''), w)
      | Some rt \<Rightarrow>
     (case tb_token_type data of
        None \<Rightarrow> (Inl (KeyError ''token_type''), w)
      | Some tt \<Rightarrow>
          (let creds = \<lparr>access_token = access, refresh_token = rt, token_type = tt,
                 resource_url =
                   (case tb_resource_url data of
                      Some u \<Rightarrow> u
                    | None \<Rightarrow> replace_str API_BASE_URL ''/v1'' ''''),
                 expiry_date = \<lfloor>clock w\<rfloor> + ttl\<rparr>
           in (Inr creds, save_oauth_creds creds w))))))"

text \<open>
  The \<^verbatim>\<open>while\<close> loop of \<^verbatim>\<open>_poll_for_token\<close>. Each turn reads the clock, sleeps the
  current interval and posts; \<^verbatim>\<open>response.json()\<close> is called before the status is looked
  at. The loop ends at the latest when the script of the token endpoint does.
\<close>

function poll_loop :: "DeviceAuth \<Rightarrow> real \<Rightarrow> real \<Rightarrow> world \<Rightarrow> OAuthCreds result" where
  "poll_loop device_auth start_time poll_interval w =
     (if clock w - start_time < of_int (expires_in device_auth) then
        (case post_token (DeviceCodeGrant (device_code device_auth)) (sleep poll_interval w) of
           (Inl e, w1) \<Rightarrow> (Inl e, w1)
         | (Inr response, w1) \<Rightarrow>
             (case json_body response of
                None \<Rightarrow> (Inl JSONDecodeError, w1)
              | Some data \<Rightarrow>
                  if status_code response = 200 then poll_success data w1
                  else if tb_error data = Some ''authorization_pending''
                  then poll_loop device_auth start_time poll_interval w1
                  else if tb_error data = Some ''slow_down''
                  then poll_loop device_auth start_time (min (poll_interval * 1.5) 10) w1
                  else (Inl (Exception (''OAuth error: '' @ py_str (tb_error_description data))),
                        w1)))
      else (Inl (Exception ''OAuth device flow timed out.''), w))"
  by pat_completeness auto
termination
  by (relation "measure (\<lambda>(device_auth, start_time, poll_interval, w). length (token_endpoint w))")
     (auto simp: post_token_def sleep_def log_event_def split: list.splits)

definition poll_for_token :: "DeviceAuth \<Rightarrow> world \<Rightarrow> OAuthCreds result" where
  "poll_for_token device_auth w = poll_loop device_auth (clock w) 2 w"

text \<open>
  \<^verbatim>\<open>_authenticate\<close>: the device authorization, the verification URL shown (printed and
  handed to the browser, whose failure is caught), then the poll.
\<close>

definition authenticate :: "world \<Rightarrow> unit result" where
  "authenticate w =
     (case perform_device_auth (log_event Authenticate w) of
        (Inl e, w1) \<Rightarrow> (Inl e, w1)
      | (Inr device_auth, w1) \<Rightarrow>
          (case poll_for_token device_auth
                  (log_event (ShowUrl (verification_uri_complete device_auth)) w1) of
             (Inl e, w2) \<Rightarrow> (Inl e, w2)
           | (Inr creds, w2) \<Rightarrow> (Inr (), w2)))"

section \<open>The refresh\<close>

text \<open>
  The success branch of \<^verbatim>\<open>_refresh_token\<close> (lines 161 to 174): \<^verbatim>\<open>refresh_token\<close> and
  \<^verbatim>\<open>resource_url\<close> default to those of the credential in memory.
\<close>

definition refresh_success :: "OAuthCreds \<Rightarrow> token_body \<Rightarrow> world \<Rightarrow> unit result" where
  "refresh_success old data w =
     (case tb_expires_in data of
        None \<Rightarrow> (Inl (KeyError ''expires_in''), w)
      | Some ttl \<Rightarrow>
     (case tb_access_token data of
        None \<Rightarrow> (Inl (KeyError ''access_token''), w)
      | Some access \<Rightarrow>
     (case tb_token_type data of
        None \<Rightarrow> (Inl (KeyError ''token_type''), w)
      | Some tt \<Rightarrow>
          (let creds = \<lparr>access_token = access,
                 refresh_token =
                   (case tb_refresh_token data of Some rt \<Rightarrow> rt | None \<Rightarrow> refresh_token old),
                 token_type = tt,
                 resource_url =
                   (case tb_resource_url data of Some u \<Rightarrow> u | None \<Rightarrow> resource_url old),
                 expiry_date = \<lfloor>clock w\<rfloor> + ttl\<rparr>
           in (Inr (), save_oauth_creds creds w)))))"

text \<open>
  \<^verbatim>\<open>_refresh_token\<close>. The guard is on the credential, not on its refresh token; a status
  other than 200 clears the credential in memory, unlinks the file and raises.
\<close>

definition refresh_token_op :: "world \<Rightarrow> unit result" where
  "refresh_token_op w0 =
     (let w = log_event Refresh w0 in
      case oauth_creds w of
        None \<Rightarrow> (Inl (Exception ''No credentials to refresh.''), w)
      | Some old \<Rightarrow>
          (case post_token (RefreshTokenGrant (refresh_token old)) w of
             (Inl e, w1) \<Rightarrow> (Inl e, w1)
           | (Inr response, w1) \<Rightarrow>
               if status_code response \<noteq> 200
               then (Inl (Exception ''Failed to refresh token. Please re-authenticate.''),
                     w1\<lparr>oauth_creds := None, creds_file := None\<rparr>)
               else (case json_body response of
                       None \<Rightarrow> (Inl JSONDecodeError, w1)
                     | Some data \<Rightarrow> refresh_success old data w1)))"

section \<open>The dispatcher\<close>

text \<open>
  \<^verbatim>\<open>_ensure_valid_token\<close>: nothing when the credential is not expired; otherwise a refresh
  when there is a credential with a non-empty refresh token, with the device flow as the
  handler of any exception, and the device flow at once when there is none.
\<close>

definition ensure_valid_token :: "world \<Rightarrow> unit result" where
  "ensure_valid_token w =
     (if is_token_expired (oauth_creds w) (clock w) then
        (if (case oauth_creds w of None \<Rightarrow> False | Some c \<Rightarrow> refresh_token c \<noteq> '''') then
           (case refresh_token_op w of
              (Inl e, w1) \<Rightarrow> authenticate w1
            | (Inr u, w1) \<Rightarrow> (Inr (), w1))
         else authenticate w)
      else (Inr (), w))"

text \<open>Lines 202 to 205 of \<^verbatim>\<open>make_request\<close>: the URL of the chat endpoint.\<close>

definition api_url :: "string \<Rightarrow> string" where
  "api_url resource =
     (if \<not> startswith resource ''https://'' then ''https://'' @ resource else resource)
       @ ''/v1/chat/completions''"

definition bearer :: "world \<Rightarrow> exn + string" where
  "bearer w =
     (case oauth_creds w of
        None \<Rightarrow> Inl AttributeError
      | Some c \<Rightarrow> Inr (''Bearer '' @ access_token c))"

text \<open>
  Lines 221 to 229: the \<^verbatim>\<open>try\<close> block holds the refresh, the new header and the resend; the
  handler of any exception of the three holds the device flow, the new header and one more
  resend. The URL is the one built before the first request.
\<close>

definition refresh_and_resend :: "string \<Rightarrow> bool \<Rightarrow> world \<Rightarrow> chat_body response result" where
  "refresh_and_resend url stream w =
     (case refresh_token_op w of
        (Inl e, w1) \<Rightarrow> (Inl e, w1)
      | (Inr u, w1) \<Rightarrow>
          (case bearer w1 of
             Inl e \<Rightarrow> (Inl e, w1)
           | Inr authorization \<Rightarrow> post_chat url authorization stream w1))"

definition authenticate_and_resend :: "string \<Rightarrow> bool \<Rightarrow> world \<Rightarrow> chat_body response result" where
  "authenticate_and_resend url stream w =
     (case authenticate w of
        (Inl e, w1) \<Rightarrow> (Inl e, w1)
      | (Inr u, w1) \<Rightarrow>
          (case bearer w1 of
             Inl e \<Rightarrow> (Inl e, w1)
           | Inr authorization \<Rightarrow> post_chat url authorization stream w1))"

definition retry :: "string \<Rightarrow> bool \<Rightarrow> world \<Rightarrow> chat_body response result" where
  "retry url stream w =
     (case refresh_and_resend url stream w of
        (Inl e, w1) \<Rightarrow> authenticate_and_resend url stream w1
      | (Inr response, w1) \<Rightarrow> (Inr response, w1))"

text \<open>
  Lines 231 to 239: \<^verbatim>\<open>raise_for_status\<close>, then the chunk generator for a streaming request
  and \<^verbatim>\<open>response.json()\<close> otherwise.
\<close>

datatype upstream = Body string | Stream "string list"

definition deliver :: "bool \<Rightarrow> chat_body response \<Rightarrow> exn + upstream" where
  "deliver stream response =
     (if raises_for_status (status_code response) then Inl (HTTPError (status_code response))
      else if stream then Inr (Stream (chat_chunks (json_body response)))
      else (case chat_json (json_body response) of
              None \<Rightarrow> Inl JSONDecodeError
            | Some body \<Rightarrow> Inr (Body body)))"

text \<open>
  \<^verbatim>\<open>make_request\<close>, for a request whose \<^verbatim>\<open>stream\<close> flag is given; the rest of the payload
  goes to the endpoint unread.
\<close>

definition make_request :: "bool \<Rightarrow> world \<Rightarrow> upstream result" where
  "make_request stream w0 =
     (case ensure_valid_token w0 of
        (Inl e, w) \<Rightarrow> (Inl e, w)
      | (Inr u, w) \<Rightarrow>
          (case oauth_creds w of
             None \<Rightarrow> (Inl AttributeError, w)
           | Some c \<Rightarrow>
               (case post_chat (api_url (resource_url c)) (''Bearer '' @ access_token c) stream w of
                  (Inl e, w1) \<Rightarrow> (Inl e, w1)
                | (Inr response, w1) \<Rightarrow>
                    (case (if status_code response \<in> {400, 401, 403}
                           then retry (api_url (resource_url c)) stream w1
                           else (Inr response, w1)) of
                       (Inl e, w2) \<Rightarrow> (Inl e, w2)
                     | (Inr final, w2) \<Rightarrow> (deliver stream final, w2)))))"

text \<open>
  The spec's words for a stored value that "carries a scheme": it begins with a non-empty
  run of scheme characters (letters, digits, \<^verbatim>\<open>+\<close>, \<^verbatim>\<open>-\<close>, \<^verbatim>\<open>.\<close>) followed by \<^verbatim>\<open>://\<close>.
  This definition follows the spec, not the source, which only looks for \<^verbatim>\<open>https://\<close>.
\<close>

definition scheme_char :: "char \<Rightarrow> bool" where
  "scheme_char c =
     (let n = (of_char c :: nat)
      in (65 \<le> n \<and> n \<le> 90) \<or> (97 \<le> n \<and> n \<le> 122) \<or> (48 \<le> n \<and> n \<le> 57)
         \<or> n = 43 \<or> n = 45 \<or> n = 46)"

definition carries_scheme :: "string \<Rightarrow> bool" where
  "carries_scheme url =
     (takeWhile scheme_char url \<noteq> []
      \<and> startswith (dropWhile scheme_char url) ''://'')"

section \<open>The stream translator\<close>

text \<open>
  \<^verbatim>\<open>generate_stream\<close> of \<^verbatim>\<open>openai_adapter.py\<close>. The two pydantic models are declared in
  \<^verbatim>\<open>models.py\<close>; here they are records of the fields the constructor calls give, and
  \<^verbatim>\<open>model_dump_json\<close> is a parameter \<open>dump\<close>. The identifier and the creation time are
  drawn once, before the \<^verbatim>\<open>try\<close>, and are parameters too.
\<close>

record ChatCompletionStreamChoice =
  index :: int
  delta :: "(string \<times> string) list"
  finish_reason :: "string option"

record ChatCompletionStreamResponse =
  id_field :: string
  created :: int
  model :: string
  choices :: "ChatCompletionStreamChoice list"

text \<open>
  The value the generator iterates over: the chunks it yields, and how it ends, by
  exhaustion or by raising an exception \<open>e\<close> whose \<^verbatim>\<open>str(e)\<close> is given.
\<close>

datatype source_end = EndOfStream | Failure string

definition newline :: char where
  "newline = CHR 0x0A"

definition frame :: "string \<Rightarrow> string" where
  "frame payload = ''data: '' @ payload @ [newline, newline]"

definition chunk_response :: "string \<Rightarrow> int \<Rightarrow> string \<Rightarrow> string \<Rightarrow> ChatCompletionStreamResponse" where
  "chunk_response completion_id created_time request_model chunk =
     \<lparr>id_field = completion_id, created = created_time, model = request_model,
      choices = [\<lparr>index = 0, delta = [(''content'', chunk)], finish_reason = None\<rparr>]\<rparr>"

definition final_response :: "string \<Rightarrow> int \<Rightarrow> string \<Rightarrow> ChatCompletionStreamResponse" where
  "final_response completion_id created_time request_model =
     \<lparr>id_field = completion_id, created = created_time, model = request_model,
      choices = [\<lparr>index = 0, delta = [], finish_reason = Some ''stop''\<rparr>]\<rparr>"

text \<open>
  Lines 157 to 160: the dictionary \<^verbatim>\<open>{"error": {"message": str(e), "type":
  "internal_error"}}\<close> is formatted into the f-string, which renders a \<^verbatim>\<open>dict\<close> with
  \<^verbatim>\<open>repr\<close>.
\<close>

definition error_response :: "string \<Rightarrow> string" where
  "error_response message =
     ''{'' @ py_repr ''error'' @ '': {'' @ py_repr ''message'' @ '': '' @ py_repr message
       @ '', '' @ py_repr ''type'' @ '': '' @ py_repr ''internal_error'' @ ''}}''"

fun translate :: "(ChatCompletionStreamResponse \<Rightarrow> string) \<Rightarrow> string \<Rightarrow> int \<Rightarrow> string
    \<Rightarrow> string list \<Rightarrow> source_end \<Rightarrow> string list" where
  "translate dump completion_id created_time request_model [] EndOfStream =
     [frame (dump (final_response completion_id created_time request_model)), frame ''[DONE]'']"
| "translate dump completion_id created_time request_model [] (Failure message) =
     [frame (error_response message), frame ''[DONE]'']"
| "translate dump completion_id created_time request_model (chunk # rest) ending =
     frame (dump (chunk_response completion_id created_time request_model chunk))
       # translate dump completion_id created_time request_model rest ending"

text \<open>
  Lines 122 to 161, from the loop on: the lines the generator yields, given what line 120
  gave inside the \<^verbatim>\<open>try\<close>, an exception (its \<^verbatim>\<open>str\<close>) or the source to iterate over.
\<close>

definition generate_stream_from :: "(ChatCompletionStreamResponse \<Rightarrow> string) \<Rightarrow> string \<Rightarrow> int
    \<Rightarrow> string \<Rightarrow> string + string list \<times> source_end \<Rightarrow> string list" where
  "generate_stream_from dump completion_id created_time request_model awaited =
     (case awaited of
        Inl message \<Rightarrow> [frame (error_response message), frame ''[DONE]'']
      | Inr (chunks, ending) \<Rightarrow>
          translate dump completion_id created_time request_model chunks ending)"

text \<open>
  \<^verbatim>\<open>str(e)\<close> of an exception that \<^verbatim>\<open>make_request\<close> raises: the message for the module's own
  \<^verbatim>\<open>Exception(message)\<close>, and the text the library gives its exception otherwise, a
  parameter \<open>library\<close>.
\<close>

definition exception_text :: "(exn \<Rightarrow> string) \<Rightarrow> exn \<Rightarrow> string" where
  "exception_text library e = (case e of Exception message \<Rightarrow> message | _ \<Rightarrow> library e)"

text \<open>
  Line 120 is \<^verbatim>\<open>await qwen_client.make_request(request_data)\<close>. \<^verbatim>\<open>QwenClient.make_request\<close>
  is a plain \<^verbatim>\<open>def\<close>: the call runs it to its end and gives a \<^verbatim>\<open>dict\<close> or, for a streaming
  request, the generator of lines 234 to 237. Neither is awaitable, so the \<^verbatim>\<open>await\<close> raises
  \<^verbatim>\<open>TypeError\<close>, whose text is the parameter \<open>not_awaitable\<close>; it never gives a source.
\<close>

definition await_value :: "(upstream \<Rightarrow> string) \<Rightarrow> upstream
    \<Rightarrow> string + string list \<times> source_end" where
  "await_value not_awaitable returned = Inl (not_awaitable returned)"

text \<open>
  The whole generator, run in a state of the client: the request data has \<^verbatim>\<open>stream\<close> set,
  and the call, the \<^verbatim>\<open>await\<close> and the loop all stand inside the \<^verbatim>\<open>try\<close>.
\<close>

definition generate_stream :: "(ChatCompletionStreamResponse \<Rightarrow> string) \<Rightarrow> (exn \<Rightarrow> string)
    \<Rightarrow> (upstream \<Rightarrow> string) \<Rightarrow> string \<Rightarrow> int \<Rightarrow> string \<Rightarrow> world \<Rightarrow> string list \<times> world" where
  "generate_stream dump library not_awaitable completion_id created_time request_model w =
     (case make_request True w of
        (Inl e, w1) \<Rightarrow>
          (generate_stream_from dump completion_id created_time request_model
             (Inl (exception_text library e)), w1)
      | (Inr returned, w1) \<Rightarrow>
          (generate_stream_from dump completion_id created_time request_model
             (await_value not_awaitable returned), w1))"

section \<open>Describing runs of the poll loop\<close>

text \<open>
  The error code a reply of the token endpoint carries for the poll loop: none when the
  request raised, when the status is 200, or when the body is not JSON. A reply keeps the
  loop waiting when the code is \<^verbatim>\<open>authorization_pending\<close> or \<^verbatim>\<open>slow_down\<close>.
\<close>

definition reply_error :: "token_body option response reply \<Rightarrow> string option" where
  "reply_error r =
     (case outcome r of
        Inl e \<Rightarrow> None
      | Inr response \<Rightarrow>
          if status_code response = 200 then None
          else (case json_body response of None \<Rightarrow> None | Some data \<Rightarrow> tb_error data))"

definition waiting :: "token_body option response reply \<Rightarrow> bool" where
  "waiting r =
     (reply_error r = Some ''authorization_pending'' \<or> reply_error r = Some ''slow_down'')"

text \<open>
  The interval after a waiting reply, after a run of them, the time such a run takes (the
  sleeps and the requests), and the effects it leaves in the log: one sleep of the current
  interval before each request.
\<close>

definition next_interval :: "real \<Rightarrow> token_body option response reply \<Rightarrow> real" where
  "next_interval interval r =
     (if reply_error r = Some ''slow_down'' then min (interval * 1.5) 10 else interval)"

fun interval_after :: "real \<Rightarrow> token_body option response reply list \<Rightarrow> real" where
  "interval_after interval [] = interval"
| "interval_after interval (r # rs) = interval_after (next_interval interval r) rs"

fun waited :: "real \<Rightarrow> token_body option response reply list \<Rightarrow> real" where
  "waited interval [] = 0"
| "waited interval (r # rs) = interval + delay r + waited (next_interval interval r) rs"

fun poll_events :: "grant \<Rightarrow> real \<Rightarrow> token_body option response reply list \<Rightarrow> event list" where
  "poll_events g interval [] = []"
| "poll_events g interval (r # rs) =
     Sleep interval # TokenPost g # poll_events g (next_interval interval r) rs"

text \<open>
  The state after \<^verbatim>\<open>_poll_for_token\<close> has slept before and sent one request for each reply
  of \<open>rs\<close>, the first replies of the script.
\<close>

definition polled :: "DeviceAuth \<Rightarrow> token_body option response reply list \<Rightarrow> world \<Rightarrow> world" where
  "polled d rs w =
     w\<lparr>clock := clock w + waited 2 rs,
       token_endpoint := drop (length rs) (token_endpoint w),
       events := events w @ poll_events (DeviceCodeGrant (device_code d)) 2 rs\<rparr>"

section \<open>Describing runs of the dispatcher\<close>

text \<open>
  The part of the log the retry policy is about: the chat requests, the refreshes and the
  device flows, in order.
\<close>

fun policy_event :: "event \<Rightarrow> bool" where
  "policy_event (ChatPost url authorization stream) = True"
| "policy_event Refresh = True"
| "policy_event Authenticate = True"
| "policy_event e = False"

definition policy_trace :: "world \<Rightarrow> event list" where
  "policy_trace w = filter policy_event (events w)"

section \<open>Example states\<close>

text \<open>
  Concrete credentials, replies and states on which the theorems below are run. The clock
  stands at 1000 and the credential in memory expires at 5000; a reply of the token
  endpoint takes half a second, one of the chat endpoint a second.
\<close>

definition example_creds :: OAuthCreds where
  "example_creds =
     \<lparr>access_token = ''t0'', refresh_token = ''r0'', token_type = ''Bearer'',
      resource_url = ''portal.qwen.ai'', expiry_date = 5000\<rparr>"

definition example_device :: DeviceAuth where
  "example_device =
     \<lparr>device_code = ''dc'', user_code = ''uc'', verification_uri = ''v'',
      verification_uri_complete = ''vc'', expires_in = 60\<rparr>"

definition error_reply :: "string \<Rightarrow> token_body option response reply" where
  "error_reply code =
     \<lparr>delay = 1 / 2,
      outcome = Inr \<lparr>status_code = 400,
        json_body = Some \<lparr>tb_access_token = None, tb_refresh_token = None,
          tb_token_type = None, tb_resource_url = None, tb_expires_in = None,
          tb_error = Some code, tb_error_description = Some ''no''\<rparr>\<rparr>\<rparr>"

definition granted_body :: token_body where
  "granted_body =
     \<lparr>tb_access_token = Some ''t1'', tb_refresh_token = Some ''r1'',
      tb_token_type = Some ''Bearer'', tb_resource_url = None, tb_expires_in = Some 3600,
      tb_error = None, tb_error_description = None\<rparr>"

definition granted_reply :: "token_body option response reply" where
  "granted_reply =
     \<lparr>delay = 1 / 2, outcome = Inr \<lparr>status_code = 200, json_body = Some granted_body\<rparr>\<rparr>"

definition granted_creds :: OAuthCreds where
  "granted_creds =
     \<lparr>access_token = ''t1'', refresh_token = ''r1'', token_type = ''Bearer'',
      resource_url = ''https://dashscope.aliyuncs.com/compatible-mode'', expiry_date = 4602\<rparr>"

definition chat_reply :: "int \<Rightarrow> chat_body response reply" where
  "chat_reply status =
     \<lparr>delay = 1,
      outcome = Inr \<lparr>status_code = status,
        json_body = \<lparr>chat_json = Some ''{}'', chat_chunks = []\<rparr>\<rparr>\<rparr>"

definition example_world :: world where
  "example_world =
     \<lparr>clock = 1000, oauth_creds = Some example_creds,
      creds_file = Some (Wellformed example_creds),
      token_endpoint = [], device_endpoint = [], chat_endpoint = [], events = []\<rparr>"

text \<open>Scripts of the token endpoint for the device flow; \<open>hasty_device\<close> leaves 3 seconds.\<close>

definition granted_world :: world where
  "granted_world = example_world\<lparr>token_endpoint := [granted_reply]\<rparr>"

definition pending_world :: world where
  "pending_world =
     example_world\<lparr>token_endpoint :=
       [error_reply ''authorization_pending'', error_reply ''authorization_pending'',
        granted_reply]\<rparr>"

definition slow_world :: world where
  "slow_world =
     example_world\<lparr>token_endpoint := [error_reply ''slow_down'', error_reply ''access_denied'']\<rparr>"

definition hasty_device :: DeviceAuth where
  "hasty_device = example_device\<lparr>expires_in := 3\<rparr>"

text \<open>
  Scripts for the dispatcher: a request that raises, and states whose chat endpoint answers
  401 then 200, 401 then a failed connection, 403 with a token endpoint that refuses the
  refresh, and 200 at once. The last two states have no credential in memory, and a
  credential whose refresh token is empty.
\<close>

definition failed_reply :: "'r reply" where
  "failed_reply = \<lparr>delay = 1, outcome = Inl ConnectionError\<rparr>"

definition revoked_world :: world where
  "revoked_world =
     example_world\<lparr>chat_endpoint := [chat_reply 401, chat_reply 200],
       token_endpoint := [granted_reply]\<rparr>"

definition dropped_world :: world where
  "dropped_world =
     example_world\<lparr>chat_endpoint := [chat_reply 401, failed_reply],
       token_endpoint := [granted_reply]\<rparr>"

definition refused_world :: world where
  "refused_world =
     example_world\<lparr>chat_endpoint := [chat_reply 403],
       token_endpoint := [error_reply ''invalid_grant'']\<rparr>"

definition plain_world :: world where
  "plain_world = example_world\<lparr>chat_endpoint := [chat_reply 200]\<rparr>"

definition example_url :: string where
  "example_url = ''https://portal.qwen.ai/v1/chat/completions''"

definition signed_out_world :: world where
  "signed_out_world = example_world\<lparr>oauth_creds := None\<rparr>"

definition tokenless_world :: world where
  "tokenless_world =
     example_world\<lparr>oauth_creds := Some (example_creds\<lparr>refresh_token := ''''\<rparr>),
       token_endpoint := [granted_reply]\<rparr>"

text \<open>
  States for the streaming adapter: the chat endpoint answers 200 with the chunks
  \<^verbatim>\<open>Hello\<close> and \<^verbatim>\<open> world\<close>; and there is no credential and the device authorization leaves no
  time at all, so that \<^verbatim>\<open>make_request\<close> raises the time-out of the device flow.
\<close>

definition hello_world :: world where
  "hello_world =
     example_world\<lparr>chat_endpoint :=
       [\<lparr>delay = 1,
         outcome = Inr \<lparr>status_code = 200,
           json_body = \<lparr>chat_json = None, chat_chunks = [''Hello'', '' world'']\<rparr>\<rparr>\<rparr>]\<rparr>"

definition impatient_world :: world where
  "impatient_world =
     example_world\<lparr>oauth_creds := None,
       device_endpoint :=
         [\<lparr>delay = 1,
           outcome = Inr \<lparr>status_code = 200,
             json_body = Wellformed (example_device\<lparr>expires_in := 0\<rparr>)\<rparr>\<rparr>]\<rparr>"

section \<open>Facts about the string functions\<close>

lemma startswith_append: "startswith (p @ s) p"
  by (induction p) simp_all

lemma startswith_iff: "startswith s p \<longleftrightarrow> (\<exists>t. s = p @ t)"
proof (induction s p rule: startswith.induct)
  case (1 s)
  then show ?case by simp
next
  case (2 p ps)
  then show ?case by simp
next
  case (3 c cs p ps)
  then show ?case by auto
qed

lemma https_carries_scheme: "startswith s ''https://'' \<Longrightarrow> carries_scheme s"
  by (auto simp: startswith_iff carries_scheme_def scheme_char_def)

section \<open>Expiry\<close>

lemma is_token_expired_iff:
  "is_token_expired (Some c) now \<longleftrightarrow> of_int (expiry_date c) < now - 30"
  by (simp add: is_token_expired_def)

text \<open>
  C4. The claim: a credential whose \<^verbatim>\<open>expiry_date\<close> is less than 30 seconds after now, or
  at or before now, is expired. The check of the source subtracts the 30 seconds from the
  clock instead of from the expiry date: a credential that expires in 10 seconds, one that
  expires now and one that expired 10 seconds ago are all reported as not expired.
\<close>

theorem is_token_expired_skew_sign:
  "\<not> is_token_expired (Some \<lparr>access_token = ''a'', refresh_token = ''r'', token_type = ''Bearer'',
        resource_url = ''portal.qwen.ai'', expiry_date = 1010\<rparr>) 1000
   \<and> \<not> is_token_expired (Some \<lparr>access_token = ''a'', refresh_token = ''r'', token_type = ''Bearer'',
        resource_url = ''portal.qwen.ai'', expiry_date = 1000\<rparr>) 1000
   \<and> \<not> is_token_expired (Some \<lparr>access_token = ''a'', refresh_token = ''r'', token_type = ''Bearer'',
        resource_url = ''portal.qwen.ai'', expiry_date = 990\<rparr>) 1000"
  by (simp add: is_token_expired_iff)

section \<open>Loading the credential\<close>

text \<open>
  C3, as stated, fails: a credential file that exists and does not parse makes the load
  raise; it does not return the absent credential.
\<close>

theorem load_oauth_creds_malformed_raises:
  "load_oauth_creds (Some Malformed) = Inl JSONDecodeError
   \<and> load_oauth_creds (Some Malformed) \<noteq> Inr None"
  by (simp add: load_oauth_creds_def)

text \<open>
  C3, amended. The load returns the absent credential exactly when no credential file
  exists. A file that \<^verbatim>\<open>json.load\<close> rejects raises the parser's error past the load, a
  file that is JSON but not the fields of a credential raises \<^verbatim>\<open>TypeError\<close>, and a file
  holding a credential returns it.
\<close>

theorem load_oauth_creds_absent_iff:
  "(load_oauth_creds file = Inr None \<longleftrightarrow> file = None)
   \<and> load_oauth_creds (Some Malformed) = Inl JSONDecodeError
   \<and> load_oauth_creds (Some Misshapen) = Inl TypeError
   \<and> load_oauth_creds (Some (Wellformed creds)) = Inr (Some creds)"
  by (simp add: load_oauth_creds_def split: option.splits parsed.splits)

section \<open>The URL of the chat endpoint\<close>

text \<open>
  C8, as stated, fails: a stored value that carries the scheme \<^verbatim>\<open>http\<close> is not left
  unchanged; it is prefixed with \<^verbatim>\<open>https://\<close> like a bare host.
\<close>

theorem api_url_http_scheme_prefixed:
  "carries_scheme ''http://example.com''
   \<and> api_url ''http://example.com'' = ''https://http://example.com/v1/chat/completions''
   \<and> api_url ''http://example.com'' \<noteq> ''http://example.com'' @ ''/v1/chat/completions''"
  by (simp add: carries_scheme_def scheme_char_def api_url_def)

text \<open>
  C8, amended. The request URL is \<^verbatim>\<open><origin>/v1/chat/completions\<close>, where the origin is the
  stored value unchanged when it starts with \<^verbatim>\<open>https://\<close> and the stored value prefixed
  with \<^verbatim>\<open>https://\<close> otherwise; in particular a value that carries no scheme is prefixed.
\<close>

theorem api_url_origin:
  "(startswith resource ''https://'' \<longrightarrow> api_url resource = resource @ ''/v1/chat/completions'')
   \<and> (\<not> startswith resource ''https://'' \<longrightarrow>
        api_url resource = ''https://'' @ resource @ ''/v1/chat/completions'')
   \<and> (\<not> carries_scheme resource \<longrightarrow>
        api_url resource = ''https://'' @ resource @ ''/v1/chat/completions'')"
  using https_carries_scheme [of resource] by (auto simp: api_url_def)

theorem api_url_origin_witness:
  "startswith ''https://portal.qwen.ai'' ''https://''
   \<and> api_url ''https://portal.qwen.ai'' = ''https://portal.qwen.ai/v1/chat/completions''
   \<and> \<not> startswith ''portal.qwen.ai'' ''https://''
   \<and> \<not> carries_scheme ''portal.qwen.ai''
   \<and> api_url ''portal.qwen.ai'' = ''https://portal.qwen.ai/v1/chat/completions''"
proof -
  have a: "startswith ''https://portal.qwen.ai'' ''https://''"
    by simp
  have b: "\<not> startswith ''portal.qwen.ai'' ''https://''"
    by simp
  have c: "\<not> carries_scheme ''portal.qwen.ai''"
    by (simp add: carries_scheme_def scheme_char_def)
  from a api_url_origin [of "''https://portal.qwen.ai''"]
  have d: "api_url ''https://portal.qwen.ai'' = ''https://portal.qwen.ai/v1/chat/completions''"
    by simp
  from b c api_url_origin [of "''portal.qwen.ai''"]
  have e: "api_url ''portal.qwen.ai'' = ''https://portal.qwen.ai/v1/chat/completions''"
    by simp
  from a b c d e show ?thesis by blast
qed

section \<open>Outcomes of the poll loop\<close>

lemma default_resource_url:
  "replace_str API_BASE_URL ''/v1'' '''' = ''https://dashscope.aliyuncs.com/compatible-mode''"
  by (simp add: API_BASE_URL_def)

lemma post_token_Cons:
  "token_endpoint w = r # rs \<Longrightarrow>
   post_token g (sleep d w) =
     (outcome r, w\<lparr>clock := clock w + d + delay r, token_endpoint := rs,
                   events := events w @ [Sleep d, TokenPost g]\<rparr>)"
  by (simp add: post_token_def sleep_def log_event_def)

lemma poll_loop_waiting_step:
  assumes "token_endpoint w = r # rs" and "waiting r"
    and "clock w - s < of_int (expires_in d)"
  shows "poll_loop d s iv w =
     poll_loop d s (next_interval iv r)
       (w\<lparr>clock := clock w + iv + delay r, token_endpoint := rs,
          events := events w @ [Sleep iv, TokenPost (DeviceCodeGrant (device_code d))]\<rparr>)"
  using assms
  apply (subst poll_loop.simps)
  apply (simp add: post_token_Cons del: poll_loop.simps)
  apply (auto simp: waiting_def reply_error_def next_interval_def split: sum.splits option.splits if_splits simp del: poll_loop.simps)
  done

lemma poll_loop_skip_waiting:
  assumes "token_endpoint w = pre @ rs" and "\<forall>r\<in>set pre. waiting r"
    and "\<forall>i<length pre. clock w + waited iv (take i pre) - s < of_int (expires_in d)"
  shows "poll_loop d s iv w =
     poll_loop d s (interval_after iv pre)
       (w\<lparr>clock := clock w + waited iv pre, token_endpoint := rs,
          events := events w @ poll_events (DeviceCodeGrant (device_code d)) iv pre\<rparr>)"
  using assms
proof (induction pre arbitrary: iv w)
  case Nil
  then have "rs = token_endpoint w" by simp
  then show ?case by (simp del: poll_loop.simps)
next
  case (Cons r pre)
  let ?w1 = "w\<lparr>clock := clock w + iv + delay r, token_endpoint := pre @ rs,
          events := events w @ [Sleep iv, TokenPost (DeviceCodeGrant (device_code d))]\<rparr>"
  from Cons.prems(3) have h0: "clock w - s < of_int (expires_in d)"
    by fastforce
  have step: "poll_loop d s iv w = poll_loop d s (next_interval iv r) ?w1"
    using Cons.prems(1,2) h0 by (intro poll_loop_waiting_step) auto
  have t: "\<forall>i<length pre. clock ?w1 + waited (next_interval iv r) (take i pre) - s < of_int (expires_in d)"
  proof (intro allI impI)
    fix i assume "i < length pre"
    then have "Suc i < length (r # pre)" by simp
    from Cons.prems(3)[rule_format, OF this] show "clock ?w1 + waited (next_interval iv r) (take i pre) - s < of_int (expires_in d)"
      by (simp add: algebra_simps)
  qed
  have "poll_loop d s (next_interval iv r) ?w1 =
     poll_loop d s (interval_after (next_interval iv r) pre)
       (?w1\<lparr>clock := clock ?w1 + waited (next_interval iv r) pre, token_endpoint := rs,
          events := events ?w1 @ poll_events (DeviceCodeGrant (device_code d)) (next_interval iv r) pre\<rparr>)"
    using Cons.prems(2) t by (intro Cons.IH) auto
  with step show ?case by (simp add: algebra_simps del: poll_loop.simps)
qed


lemma poll_loop_timeout:
  "\<not> clock w - s < of_int (expires_in d) \<Longrightarrow>
   poll_loop d s iv w = (Inl (Exception ''OAuth device flow timed out.''), w)"
  by simp

lemma poll_loop_answer:
  assumes "token_endpoint w = r # rs" and "outcome r = Inr response"
    and "json_body response = Some data" and "clock w - s < of_int (expires_in d)"
    and "w1 = w\<lparr>clock := clock w + iv + delay r, token_endpoint := rs,
                  events := events w @ [Sleep iv, TokenPost (DeviceCodeGrant (device_code d))]\<rparr>"
  shows "status_code response = 200 \<Longrightarrow> poll_loop d s iv w = poll_success data w1"
    and "status_code response \<noteq> 200 \<Longrightarrow> tb_error data \<noteq> Some ''authorization_pending'' \<Longrightarrow>
         tb_error data \<noteq> Some ''slow_down'' \<Longrightarrow>
         poll_loop d s iv w =
           (Inl (Exception (''OAuth error: '' @ py_str (tb_error_description data))), w1)"
  using assms by (simp_all add: post_token_Cons)

lemma poll_loop_unreachable:
  assumes "token_endpoint w = []" and "clock w - s < of_int (expires_in d)"
  shows "poll_loop d s iv w =
     (Inl ConnectionError,
      w\<lparr>clock := clock w + iv,
        events := events w @ [Sleep iv, TokenPost (DeviceCodeGrant (device_code d))]\<rparr>)"
  using assms by (simp add: post_token_def sleep_def log_event_def)

lemma poll_success_complete:
  assumes "tb_expires_in data = Some ttl" and "tb_access_token data = Some access"
    and "tb_refresh_token data = Some refresh" and "tb_token_type data = Some ttype"
  shows "poll_success data w =
     (let creds = \<lparr>access_token = access, refresh_token = refresh, token_type = ttype,
            resource_url =
              (case tb_resource_url data of
                 Some u \<Rightarrow> u
               | None \<Rightarrow> ''https://dashscope.aliyuncs.com/compatible-mode''),
            expiry_date = \<lfloor>clock w\<rfloor> + ttl\<rparr>
      in (Inr creds, w\<lparr>creds_file := Some (Wellformed creds), oauth_creds := Some creds\<rparr>))"
  using assms
  by (simp add: poll_success_def default_resource_url save_oauth_creds_def Let_def
      split: option.splits)

lemma poll_for_token_skip:
  assumes "token_endpoint w = pre @ rest" and "\<forall>r\<in>set pre. waiting r"
    and "\<forall>i<length pre. waited 2 (take i pre) < of_int (expires_in d)"
  shows "poll_for_token d w = poll_loop d (clock w) (interval_after 2 pre) (polled d pre w)"
proof -
  have "poll_loop d (clock w) 2 w =
     poll_loop d (clock w) (interval_after 2 pre)
       (w\<lparr>clock := clock w + waited 2 pre, token_endpoint := rest,
          events := events w @ poll_events (DeviceCodeGrant (device_code d)) 2 pre\<rparr>)"
    using assms by (intro poll_loop_skip_waiting) auto
  with assms(1) show ?thesis
    by (simp add: poll_for_token_def polled_def del: poll_loop.simps)
qed


lemma waited_snoc: "waited iv (pre @ [r]) = waited iv pre + interval_after iv pre + delay r"
  by (induction pre arbitrary: iv) simp_all

lemma poll_events_snoc:
  "poll_events g iv (pre @ [r]) = poll_events g iv pre @ [Sleep (interval_after iv pre), TokenPost g]"
  by (induction pre arbitrary: iv) simp_all

lemma polled_snoc:
  assumes "token_endpoint w = pre @ r # rs"
  shows "polled d (pre @ [r]) w =
     (polled d pre w)\<lparr>clock := clock (polled d pre w) + interval_after 2 pre + delay r,
        token_endpoint := rs,
        events := events (polled d pre w)
          @ [Sleep (interval_after 2 pre), TokenPost (DeviceCodeGrant (device_code d))]\<rparr>"
  using assms by (simp add: polled_def waited_snoc poll_events_snoc algebra_simps)

lemma polled_script:
  "token_endpoint w = pre @ rest \<Longrightarrow> token_endpoint (polled d pre w) = rest"
  by (simp add: polled_def)

lemma polled_clock: "clock (polled d pre w) = clock w + waited 2 pre"
  by (simp add: polled_def)

lemma poll_for_token_timeout:
  assumes "token_endpoint w = pre @ rest" and "\<forall>r\<in>set pre. waiting r"
    and "\<forall>i<length pre. waited 2 (take i pre) < of_int (expires_in d)"
    and "of_int (expires_in d) \<le> waited 2 pre"
  shows "poll_for_token d w = (Inl (Exception ''OAuth device flow timed out.''), polled d pre w)"
proof -
  have "poll_for_token d w = poll_loop d (clock w) (interval_after 2 pre) (polled d pre w)"
    using assms(1-3) by (rule poll_for_token_skip)
  also have "\<dots> = (Inl (Exception ''OAuth device flow timed out.''), polled d pre w)"
    using assms(4) by (intro poll_loop_timeout) (simp add: polled_clock)
  finally show ?thesis .
qed

lemma poll_for_token_granted:
  assumes "token_endpoint w = pre @ r # rs" and "\<forall>r\<in>set pre. waiting r"
    and "\<forall>i<length pre. waited 2 (take i pre) < of_int (expires_in d)"
    and "waited 2 pre < of_int (expires_in d)"
    and "outcome r = Inr response" and "json_body response = Some data"
    and "status_code response = 200"
  shows "poll_for_token d w = poll_success data (polled d (pre @ [r]) w)"
proof -
  have "poll_for_token d w = poll_loop d (clock w) (interval_after 2 pre) (polled d pre w)"
    using assms(1-3) by (rule poll_for_token_skip)
  also have "\<dots> = poll_success data (polled d (pre @ [r]) w)"
    using assms
    by (intro poll_loop_answer(1) [where r = r and rs = rs and response = response])
       (simp_all add: polled_script polled_clock polled_snoc)
  finally show ?thesis .
qed

lemma poll_for_token_rejected:
  assumes "token_endpoint w = pre @ r # rs" and "\<forall>r\<in>set pre. waiting r"
    and "\<forall>i<length pre. waited 2 (take i pre) < of_int (expires_in d)"
    and "waited 2 pre < of_int (expires_in d)"
    and "outcome r = Inr response" and "json_body response = Some data"
    and "status_code response \<noteq> 200"
    and "tb_error data \<noteq> Some ''authorization_pending''" and "tb_error data \<noteq> Some ''slow_down''"
  shows "poll_for_token d w =
     (Inl (Exception (''OAuth error: '' @ py_str (tb_error_description data))),
      polled d (pre @ [r]) w)"
proof -
  have "poll_for_token d w = poll_loop d (clock w) (interval_after 2 pre) (polled d pre w)"
    using assms(1-3) by (rule poll_for_token_skip)
  also have "\<dots> = (Inl (Exception (''OAuth error: '' @ py_str (tb_error_description data))),
      polled d (pre @ [r]) w)"
    using assms
    by (intro poll_loop_answer(2) [where r = r and rs = rs and response = response])
       (simp_all add: polled_script polled_clock polled_snoc)
  finally show ?thesis .
qed

lemma poll_success_Inr:
  assumes "poll_success data w1 = (Inr creds, w')"
  shows "resource_url creds =
           (case tb_resource_url data of
              Some u \<Rightarrow> u
            | None \<Rightarrow> ''https://dashscope.aliyuncs.com/compatible-mode'')
         \<and> tb_access_token data = Some (access_token creds)
         \<and> tb_refresh_token data = Some (refresh_token creds)
         \<and> tb_token_type data = Some (token_type creds)
         \<and> (\<exists>ttl. tb_expires_in data = Some ttl \<and> expiry_date creds = \<lfloor>clock w1\<rfloor> + ttl)
         \<and> w' = save_oauth_creds creds w1"
  using assms
  by (auto simp: poll_success_def default_resource_url Let_def split: option.splits)

lemma poll_loop_returns:
  "poll_loop d s iv w = (Inr creds, w') \<Longrightarrow>
   \<exists>pre r rs response data.
     token_endpoint w = pre @ r # rs \<and> token_endpoint w' = rs
     \<and> (\<forall>q\<in>set pre. waiting q)
     \<and> outcome r = Inr response \<and> status_code response = 200
     \<and> json_body response = Some data
     \<and> tb_access_token data = Some (access_token creds)
     \<and> tb_refresh_token data = Some (refresh_token creds)
     \<and> tb_token_type data = Some (token_type creds)
     \<and> resource_url creds =
           (case tb_resource_url data of
              Some u \<Rightarrow> u
            | None \<Rightarrow> ''https://dashscope.aliyuncs.com/compatible-mode'')
     \<and> oauth_creds w' = Some creds \<and> creds_file w' = Some (Wellformed creds)"
proof (induction d s iv w rule: poll_loop.induct)
  case (1 d s iv w)
  let ?g = "DeviceCodeGrant (device_code d)"
  from "1.prems" have in_time: "clock w - s < of_int (expires_in d)"
    by (subst (asm) poll_loop.simps) (simp split: if_splits)
  show ?case
  proof (cases "token_endpoint w")
    case Nil
    with "1.prems" in_time show ?thesis
      by (subst (asm) poll_loop.simps) (simp add: post_token_def sleep_def log_event_def)
  next
    case (Cons r rs)
    let ?w1 = "w\<lparr>clock := clock w + iv + delay r, token_endpoint := rs,
                  events := events w @ [Sleep iv, TokenPost ?g]\<rparr>"
    have post: "post_token ?g (sleep iv w) = (outcome r, ?w1)"
      using Cons by (rule post_token_Cons)
    from "1.prems" in_time post obtain response data
      where r: "outcome r = Inr response" "json_body response = Some data"
      by (subst (asm) poll_loop.simps) (auto split: sum.splits option.splits)
    show ?thesis
    proof (cases "status_code response = 200")
      case True
      with "1.prems" in_time post r have "poll_success data ?w1 = (Inr creds, w')"
        by (subst (asm) poll_loop.simps) simp
      from poll_success_Inr [OF this] Cons r True show ?thesis
        by (intro exI [of _ "[]"] exI [of _ r] exI [of _ rs] exI [of _ response] exI [of _ data])
           (auto simp: save_oauth_creds_def)
    next
      case False
      show ?thesis
      proof (cases "tb_error data = Some ''authorization_pending''")
        case True
        with "1.prems" in_time post r False have "poll_loop d s iv ?w1 = (Inr creds, w')"
          by (subst (asm) poll_loop.simps) simp
        from "1.IH"(1) [OF in_time post [symmetric] r(1) r(2) False True this]
        obtain pre r' rs' response' data' where
          *: "token_endpoint ?w1 = pre @ r' # rs'" "token_endpoint w' = rs'"
             "\<forall>q\<in>set pre. waiting q"
             "outcome r' = Inr response'" "status_code response' = 200"
             "json_body response' = Some data'"
             "tb_access_token data' = Some (access_token creds)"
             "tb_refresh_token data' = Some (refresh_token creds)"
             "tb_token_type data' = Some (token_type creds)"
             "resource_url creds =
               (case tb_resource_url data' of
                  Some u \<Rightarrow> u
                | None \<Rightarrow> ''https://dashscope.aliyuncs.com/compatible-mode'')"
             "oauth_creds w' = Some creds" "creds_file w' = Some (Wellformed creds)"
          by blast
        have "waiting r"
          using r False True by (simp add: waiting_def reply_error_def)
        with * Cons show ?thesis
          by (intro exI [of _ "r # pre"] exI [of _ r'] exI [of _ rs'] exI [of _ response']
              exI [of _ data']) simp
      next
        case pending: False
        with "1.prems" in_time post r False
        have slow: "tb_error data = Some ''slow_down''"
          and run: "poll_loop d s (min (iv * 1.5) 10) ?w1 = (Inr creds, w')"
          by (subst (asm) poll_loop.simps, simp split: if_splits)+
        from "1.IH"(2) [OF in_time post [symmetric] r(1) r(2) False pending slow run]
        obtain pre r' rs' response' data' where
          *: "token_endpoint ?w1 = pre @ r' # rs'" "token_endpoint w' = rs'"
             "\<forall>q\<in>set pre. waiting q"
             "outcome r' = Inr response'" "status_code response' = 200"
             "json_body response' = Some data'"
             "tb_access_token data' = Some (access_token creds)"
             "tb_refresh_token data' = Some (refresh_token creds)"
             "tb_token_type data' = Some (token_type creds)"
             "resource_url creds =
               (case tb_resource_url data' of
                  Some u \<Rightarrow> u
                | None \<Rightarrow> ''https://dashscope.aliyuncs.com/compatible-mode'')"
             "oauth_creds w' = Some creds" "creds_file w' = Some (Wellformed creds)"
          by blast
        have "waiting r"
          using r False slow by (simp add: waiting_def reply_error_def)
        with * Cons show ?thesis
          by (intro exI [of _ "r # pre"] exI [of _ r'] exI [of _ rs'] exI [of _ response']
              exI [of _ data']) simp
      qed
    qed
  qed
qed

lemma poll_for_token_twice_pending:
  assumes script: "token_endpoint w = p1 # p2 # r # rs"
    and p1: "reply_error p1 = Some ''authorization_pending''"
    and p2: "reply_error p2 = Some ''authorization_pending''"
    and r: "outcome r = Inr response" "status_code response = 200" "json_body response = Some data"
    and fields: "tb_expires_in data = Some ttl" "tb_access_token data = Some access"
      "tb_refresh_token data = Some refresh" "tb_token_type data = Some ttype"
    and t: "0 < expires_in d" "2 + delay p1 < of_int (expires_in d)"
      "4 + delay p1 + delay p2 < of_int (expires_in d)"
  shows "\<exists>creds w'. poll_for_token d w = (Inr creds, w')
     \<and> access_token creds = access \<and> refresh_token creds = refresh \<and> token_type creds = ttype
     \<and> expiry_date creds = \<lfloor>clock w + 6 + delay p1 + delay p2 + delay r\<rfloor> + ttl
     \<and> oauth_creds w' = Some creds \<and> creds_file w' = Some (Wellformed creds)
     \<and> token_endpoint w' = rs
     \<and> events w' = events w @
         [Sleep 2, TokenPost (DeviceCodeGrant (device_code d)),
          Sleep 2, TokenPost (DeviceCodeGrant (device_code d)),
          Sleep 2, TokenPost (DeviceCodeGrant (device_code d))]"
proof -
  have w: "\<forall>q\<in>set [p1, p2]. waiting q"
    using p1 p2 by (simp add: waiting_def)
  have n: "next_interval 2 p1 = 2" "next_interval 2 p2 = 2"
    using p1 p2 by (simp_all add: next_interval_def)
  have i: "\<forall>i<length [p1, p2]. waited 2 (take i [p1, p2]) < of_int (expires_in d)"
    using t n by (auto simp: less_Suc_eq)
  have "poll_for_token d w = poll_success data (polled d ([p1, p2] @ [r]) w)"
    using script w i t n r by (intro poll_for_token_granted [where rs = rs and response = response]) auto
  then show ?thesis
    using script n by (simp add: poll_success_complete [OF fields] Let_def polled_def algebra_simps)
qed

text \<open>
  C5. \<^verbatim>\<open>_poll_for_token\<close>, for every device authorization and every script of the token
  endpoint. Let the script begin with the replies \<open>pre\<close>, all of them waiting replies
  (\<^verbatim>\<open>authorization_pending\<close> or \<^verbatim>\<open>slow_down\<close>), each met while the elapsed time was still
  below \<^verbatim>\<open>expires_in\<close>. Then the loop has slept the current interval, 2 seconds at first,
  before each of the requests that got them (\<open>polled\<close>), and
  \<^item> if the elapsed time has reached \<^verbatim>\<open>expires_in\<close>, it fails with the time-out exception
    and sends no further request;
  \<^item> if the next reply has status 200 and the four required keys, it returns the
    credential of that reply with \<^verbatim>\<open>expiry_date = int(now) + expires_in\<close> and saves it;
  \<^item> if the next reply has another status and another error code, it fails at once with
    the \<^verbatim>\<open>OAuth error\<close> exception.
  After \<^verbatim>\<open>authorization_pending\<close> the next sleep has the same interval, after
  \<^verbatim>\<open>slow_down\<close> it has \<^verbatim>\<open>min(interval * 1.5, 10)\<close>. In particular
  \<^verbatim>\<open>authorization_pending\<close> twice and then a success make exactly three requests, each
  after a sleep of 2 seconds, and return the credential of the third reply.
\<close>

theorem poll_for_token_outcomes:
  "(token_endpoint w = pre @ rest \<and> (\<forall>q\<in>set pre. waiting q)
      \<and> (\<forall>i<length pre. waited 2 (take i pre) < of_int (expires_in d)) \<longrightarrow>
      (of_int (expires_in d) \<le> waited 2 pre \<longrightarrow>
         poll_for_token d w = (Inl (Exception ''OAuth device flow timed out.''), polled d pre w))
      \<and> (\<forall>r rs response data.
            waited 2 pre < of_int (expires_in d) \<and> rest = r # rs
              \<and> outcome r = Inr response \<and> json_body response = Some data \<longrightarrow>
            (\<forall>ttl access refresh ttype.
               status_code response = 200 \<and> tb_expires_in data = Some ttl
                 \<and> tb_access_token data = Some access \<and> tb_refresh_token data = Some refresh
                 \<and> tb_token_type data = Some ttype \<longrightarrow>
               (\<exists>creds. poll_for_token d w =
                    (Inr creds, save_oauth_creds creds (polled d (pre @ [r]) w))
                  \<and> access_token creds = access \<and> refresh_token creds = refresh
                  \<and> token_type creds = ttype
                  \<and> expiry_date creds = \<lfloor>clock w + waited 2 (pre @ [r])\<rfloor> + ttl))
            \<and> (status_code response \<noteq> 200 \<and> tb_error data \<noteq> Some ''authorization_pending''
                 \<and> tb_error data \<noteq> Some ''slow_down'' \<longrightarrow>
               poll_for_token d w =
                 (Inl (Exception (''OAuth error: '' @ py_str (tb_error_description data))),
                  polled d (pre @ [r]) w))))
   \<and> (reply_error q = Some ''authorization_pending'' \<longrightarrow>
        poll_events g interval [q, q'] =
          [Sleep interval, TokenPost g, Sleep interval, TokenPost g])
   \<and> (reply_error q = Some ''slow_down'' \<longrightarrow>
        poll_events g interval [q, q'] =
          [Sleep interval, TokenPost g, Sleep (min (interval * 1.5) 10), TokenPost g])
   \<and> (token_endpoint w = p1 # p2 # p3 # ps
        \<and> reply_error p1 = Some ''authorization_pending''
        \<and> reply_error p2 = Some ''authorization_pending''
        \<and> outcome p3 = Inr response3 \<and> status_code response3 = 200
        \<and> json_body response3 = Some data3
        \<and> tb_expires_in data3 = Some ttl3 \<and> tb_access_token data3 = Some access3
        \<and> tb_refresh_token data3 = Some refresh3 \<and> tb_token_type data3 = Some ttype3
        \<and> 0 < expires_in d \<and> 2 + delay p1 < of_int (expires_in d)
        \<and> 4 + delay p1 + delay p2 < of_int (expires_in d) \<longrightarrow>
        (\<exists>creds w'. poll_for_token d w = (Inr creds, w')
           \<and> access_token creds = access3 \<and> refresh_token creds = refresh3
           \<and> token_type creds = ttype3
           \<and> expiry_date creds = \<lfloor>clock w + 6 + delay p1 + delay p2 + delay p3\<rfloor> + ttl3
           \<and> oauth_creds w' = Some creds \<and> creds_file w' = Some (Wellformed creds)
           \<and> token_endpoint w' = ps
           \<and> events w' = events w @
               [Sleep 2, TokenPost (DeviceCodeGrant (device_code d)),
                Sleep 2, TokenPost (DeviceCodeGrant (device_code d)),
                Sleep 2, TokenPost (DeviceCodeGrant (device_code d))]))"
proof (intro conjI impI allI)
  assume "token_endpoint w = pre @ rest \<and> (\<forall>q\<in>set pre. waiting q)
      \<and> (\<forall>i<length pre. waited 2 (take i pre) < of_int (expires_in d))"
    and "of_int (expires_in d) \<le> waited 2 pre"
  then show "poll_for_token d w = (Inl (Exception ''OAuth device flow timed out.''), polled d pre w)"
    by (intro poll_for_token_timeout [where rest = rest]) auto
next
  fix r rs response data ttl access refresh ttype
  assume a: "token_endpoint w = pre @ rest \<and> (\<forall>q\<in>set pre. waiting q)
      \<and> (\<forall>i<length pre. waited 2 (take i pre) < of_int (expires_in d))"
    and b: "waited 2 pre < of_int (expires_in d) \<and> rest = r # rs
              \<and> outcome r = Inr response \<and> json_body response = Some data"
    and c: "status_code response = 200 \<and> tb_expires_in data = Some ttl
                 \<and> tb_access_token data = Some access \<and> tb_refresh_token data = Some refresh
                 \<and> tb_token_type data = Some ttype"
  have "poll_for_token d w = poll_success data (polled d (pre @ [r]) w)"
    using a b c by (intro poll_for_token_granted [where rs = rs and response = response]) auto
  moreover from c have f: "tb_expires_in data = Some ttl" "tb_access_token data = Some access"
    "tb_refresh_token data = Some refresh" "tb_token_type data = Some ttype"
    by auto
  ultimately show "\<exists>creds. poll_for_token d w =
                    (Inr creds, save_oauth_creds creds (polled d (pre @ [r]) w))
                  \<and> access_token creds = access \<and> refresh_token creds = refresh
                  \<and> token_type creds = ttype
                  \<and> expiry_date creds = \<lfloor>clock w + waited 2 (pre @ [r])\<rfloor> + ttl"
    by (simp add: poll_success_complete [OF f] Let_def save_oauth_creds_def polled_clock)
next
  fix r rs response data
  assume a: "token_endpoint w = pre @ rest \<and> (\<forall>q\<in>set pre. waiting q)
      \<and> (\<forall>i<length pre. waited 2 (take i pre) < of_int (expires_in d))"
    and b: "waited 2 pre < of_int (expires_in d) \<and> rest = r # rs
              \<and> outcome r = Inr response \<and> json_body response = Some data"
    and c: "status_code response \<noteq> 200 \<and> tb_error data \<noteq> Some ''authorization_pending''
                 \<and> tb_error data \<noteq> Some ''slow_down''"
  then show "poll_for_token d w =
                 (Inl (Exception (''OAuth error: '' @ py_str (tb_error_description data))),
                  polled d (pre @ [r]) w)"
    by (intro poll_for_token_rejected [where rs = rs and response = response]) auto
next
  assume "reply_error q = Some ''authorization_pending''"
  then show "poll_events g interval [q, q'] =
          [Sleep interval, TokenPost g, Sleep interval, TokenPost g]"
    by (simp add: next_interval_def)
next
  assume "reply_error q = Some ''slow_down''"
  then show "poll_events g interval [q, q'] =
          [Sleep interval, TokenPost g, Sleep (min (interval * 1.5) 10), TokenPost g]"
    by (simp add: next_interval_def)
next
  assume "token_endpoint w = p1 # p2 # p3 # ps
        \<and> reply_error p1 = Some ''authorization_pending''
        \<and> reply_error p2 = Some ''authorization_pending''
        \<and> outcome p3 = Inr response3 \<and> status_code response3 = 200
        \<and> json_body response3 = Some data3
        \<and> tb_expires_in data3 = Some ttl3 \<and> tb_access_token data3 = Some access3
        \<and> tb_refresh_token data3 = Some refresh3 \<and> tb_token_type data3 = Some ttype3
        \<and> 0 < expires_in d \<and> 2 + delay p1 < of_int (expires_in d)
        \<and> 4 + delay p1 + delay p2 < of_int (expires_in d)"
  then show "\<exists>creds w'. poll_for_token d w = (Inr creds, w')
           \<and> access_token creds = access3 \<and> refresh_token creds = refresh3
           \<and> token_type creds = ttype3
           \<and> expiry_date creds = \<lfloor>clock w + 6 + delay p1 + delay p2 + delay p3\<rfloor> + ttl3
           \<and> oauth_creds w' = Some creds \<and> creds_file w' = Some (Wellformed creds)
           \<and> token_endpoint w' = ps
           \<and> events w' = events w @
               [Sleep 2, TokenPost (DeviceCodeGrant (device_code d)),
                Sleep 2, TokenPost (DeviceCodeGrant (device_code d)),
                Sleep 2, TokenPost (DeviceCodeGrant (device_code d))]"
    by (intro poll_for_token_twice_pending [where response = response3 and data = data3]) auto
qed

lemma reply_error_error_reply: "reply_error (error_reply code) = Some code"
  by (simp add: reply_error_def error_reply_def)

lemma waiting_examples:
  "waiting (error_reply ''authorization_pending'')" "waiting (error_reply ''slow_down'')"
  by (simp_all add: waiting_def reply_error_error_reply)

lemma next_interval_examples:
  "next_interval iv (error_reply ''authorization_pending'') = iv"
  "next_interval iv (error_reply ''slow_down'') = min (iv * 1.5) 10"
  by (simp_all add: next_interval_def reply_error_error_reply)

lemma delay_examples: "delay (error_reply code) = 1 / 2" "delay granted_reply = 1 / 2"
  by (simp_all add: error_reply_def granted_reply_def)

text \<open>
  The outcomes on concrete scripts: pending, pending, granted with a window of 60 seconds
  and of 3 seconds, and \<^verbatim>\<open>slow_down\<close> followed by \<^verbatim>\<open>access_denied\<close>.
\<close>

theorem poll_for_token_outcomes_witness:
  "(\<exists>creds w'. poll_for_token example_device pending_world = (Inr creds, w')
      \<and> access_token creds = ''t1'' \<and> refresh_token creds = ''r1''
      \<and> token_type creds = ''Bearer'' \<and> expiry_date creds = 4607
      \<and> oauth_creds w' = Some creds \<and> creds_file w' = Some (Wellformed creds)
      \<and> token_endpoint w' = []
      \<and> events w' =
          [Sleep 2, TokenPost (DeviceCodeGrant ''dc''), Sleep 2, TokenPost (DeviceCodeGrant ''dc''),
           Sleep 2, TokenPost (DeviceCodeGrant ''dc'')])
   \<and> poll_for_token hasty_device pending_world =
       (Inl (Exception ''OAuth device flow timed out.''),
        polled hasty_device
          [error_reply ''authorization_pending'', error_reply ''authorization_pending'']
          pending_world)
   \<and> poll_for_token example_device slow_world =
       (Inl (Exception ''OAuth error: no''),
        polled example_device [error_reply ''slow_down'', error_reply ''access_denied'']
          slow_world)
   \<and> poll_events (DeviceCodeGrant ''dc'') 2 [error_reply ''slow_down'', error_reply ''access_denied'']
       = [Sleep 2, TokenPost (DeviceCodeGrant ''dc''), Sleep 3, TokenPost (DeviceCodeGrant ''dc'')]
   \<and> (\<exists>creds. poll_for_token example_device pending_world =
         (Inr creds,
          save_oauth_creds creds
            (polled example_device
               ([error_reply ''authorization_pending'', error_reply ''authorization_pending'']
                  @ [granted_reply])
               pending_world))
        \<and> expiry_date creds = 4607)"
proof -
  let ?p = "error_reply ''authorization_pending''"
  let ?s = "error_reply ''slow_down''"
  let ?x = "error_reply ''access_denied''"
  have a: "\<exists>creds w'. poll_for_token example_device pending_world = (Inr creds, w')
      \<and> access_token creds = ''t1'' \<and> refresh_token creds = ''r1''
      \<and> token_type creds = ''Bearer'' \<and> expiry_date creds = 4607
      \<and> oauth_creds w' = Some creds \<and> creds_file w' = Some (Wellformed creds)
      \<and> token_endpoint w' = []
      \<and> events w' =
          [Sleep 2, TokenPost (DeviceCodeGrant ''dc''), Sleep 2, TokenPost (DeviceCodeGrant ''dc''),
           Sleep 2, TokenPost (DeviceCodeGrant ''dc'')]"
    using poll_for_token_outcomes [where w = pending_world and d = example_device
        and ?p1.0 = ?p and ?p2.0 = ?p and ?p3.0 = granted_reply and ps = "[]"
        and ?response3.0 = "\<lparr>status_code = 200, json_body = Some granted_body\<rparr>"
        and ?data3.0 = granted_body
        and ?ttl3.0 = 3600 and ?access3.0 = "''t1''" and ?refresh3.0 = "''r1''"
        and ?ttype3.0 = "''Bearer''", THEN conjunct2, THEN conjunct2, THEN conjunct2]
    by (simp add: pending_world_def example_world_def example_device_def
        reply_error_error_reply delay_examples granted_reply_def granted_body_def)
  have w: "\<forall>q\<in>set [?p, ?p]. waiting q" "\<forall>q\<in>set [?s]. waiting q"
    by (simp_all add: waiting_examples)
  have b: "poll_for_token hasty_device pending_world =
       (Inl (Exception ''OAuth device flow timed out.''),
        polled hasty_device [?p, ?p] pending_world)"
    using w poll_for_token_outcomes [where w = pending_world and d = hasty_device
        and pre = "[?p, ?p]" and rest = "[granted_reply]", THEN conjunct1]
    by (simp add: pending_world_def hasty_device_def example_device_def
        next_interval_examples delay_examples less_Suc_eq)
  have c: "poll_for_token example_device slow_world =
       (Inl (Exception ''OAuth error: no''), polled example_device [?s, ?x] slow_world)"
    using w poll_for_token_outcomes [where w = slow_world and d = example_device
        and pre = "[?s]" and rest = "[?x]", THEN conjunct1]
    by (simp add: slow_world_def example_device_def next_interval_examples delay_examples)
       (simp add: error_reply_def py_str_def)
  have d: "poll_events (DeviceCodeGrant ''dc'') 2 [?s, ?x]
       = [Sleep 2, TokenPost (DeviceCodeGrant ''dc''), Sleep 3, TokenPost (DeviceCodeGrant ''dc'')]"
    using poll_for_token_outcomes [where q = ?s and q' = ?x and interval = 2
        and g = "DeviceCodeGrant ''dc''", THEN conjunct2, THEN conjunct2, THEN conjunct1]
    by (simp add: reply_error_error_reply)
  have e: "\<exists>creds. poll_for_token example_device pending_world =
         (Inr creds,
          save_oauth_creds creds
            (polled example_device ([?p, ?p] @ [granted_reply]) pending_world))
        \<and> expiry_date creds = 4607"
    using w poll_for_token_outcomes [where w = pending_world and d = example_device
        and pre = "[?p, ?p]" and rest = "[granted_reply]", THEN conjunct1]
    by (simp add: pending_world_def example_device_def example_world_def
        next_interval_examples delay_examples less_Suc_eq)
       (auto simp: granted_reply_def granted_body_def)
  from a b c d e show ?thesis by blast
qed

lemma granted_reply_eq:
  "granted_reply = \<lparr>delay = 1 / 2, outcome = Inr \<lparr>status_code = 200, json_body = Some granted_body\<rparr>\<rparr>"
  by (simp add: granted_reply_def)

lemma poll_for_token_granted_world:
  "poll_for_token example_device granted_world =
     (Inr granted_creds,
      save_oauth_creds granted_creds (polled example_device [granted_reply] granted_world))"
proof -
  have "poll_for_token example_device granted_world =
      poll_success granted_body (polled example_device ([] @ [granted_reply]) granted_world)"
    by (rule poll_for_token_granted [where rs = "[]"
          and response = "\<lparr>status_code = 200, json_body = Some granted_body\<rparr>"])
       (simp_all add: granted_world_def example_world_def example_device_def granted_reply_eq)
  also have "\<dots> = (Inr granted_creds,
      save_oauth_creds granted_creds (polled example_device [granted_reply] granted_world))"
    by (simp add: poll_success_def default_resource_url granted_creds_def granted_body_def
        polled_def granted_world_def example_world_def delay_examples Let_def)
  finally show ?thesis .
qed

text \<open>
  C10. \<^verbatim>\<open>API_BASE_URL.replace("/v1", "")\<close> is
  \<^verbatim>\<open>https://dashscope.aliyuncs.com/compatible-mode\<close>, and whenever \<^verbatim>\<open>_poll_for_token\<close>
  returns a credential, it is the credential stored in memory and in the file, it was
  built from the reply with status 200 that ended the poll, and its \<^verbatim>\<open>resource_url\<close> is
  that default when the reply has no \<^verbatim>\<open>resource_url\<close> (and the reply's value otherwise).
\<close>

theorem poll_for_token_default_resource_url:
  "replace_str API_BASE_URL ''/v1'' '''' = ''https://dashscope.aliyuncs.com/compatible-mode''
   \<and> (poll_for_token d w = (Inr creds, w') \<longrightarrow>
        (\<exists>pre r rs response data.
           token_endpoint w = pre @ r # rs \<and> token_endpoint w' = rs
           \<and> outcome r = Inr response \<and> status_code response = 200
           \<and> json_body response = Some data
           \<and> (tb_resource_url data = None \<longrightarrow>
                resource_url creds = ''https://dashscope.aliyuncs.com/compatible-mode'')
           \<and> (\<forall>u. tb_resource_url data = Some u \<longrightarrow> resource_url creds = u)
           \<and> oauth_creds w' = Some creds \<and> creds_file w' = Some (Wellformed creds)))"
proof (intro conjI impI)
  show "replace_str API_BASE_URL ''/v1'' '''' = ''https://dashscope.aliyuncs.com/compatible-mode''"
    by (rule default_resource_url)
next
  assume "poll_for_token d w = (Inr creds, w')"
  then have "poll_loop d (clock w) 2 w = (Inr creds, w')"
    by (simp add: poll_for_token_def)
  from poll_loop_returns [OF this] obtain pre r rs response data where
    *: "token_endpoint w = pre @ r # rs" "token_endpoint w' = rs"
       "outcome r = Inr response" "status_code response = 200"
       "json_body response = Some data"
       "resource_url creds =
               (case tb_resource_url data of
                  Some u \<Rightarrow> u
                | None \<Rightarrow> ''https://dashscope.aliyuncs.com/compatible-mode'')"
       "oauth_creds w' = Some creds" "creds_file w' = Some (Wellformed creds)"
    by blast
  show "\<exists>pre r rs response data.
           token_endpoint w = pre @ r # rs \<and> token_endpoint w' = rs
           \<and> outcome r = Inr response \<and> status_code response = 200
           \<and> json_body response = Some data
           \<and> (tb_resource_url data = None \<longrightarrow>
                resource_url creds = ''https://dashscope.aliyuncs.com/compatible-mode'')
           \<and> (\<forall>u. tb_resource_url data = Some u \<longrightarrow> resource_url creds = u)
           \<and> oauth_creds w' = Some creds \<and> creds_file w' = Some (Wellformed creds)"
    using * by (intro exI [of _ pre] exI [of _ r] exI [of _ rs] exI [of _ response]
        exI [of _ data]) simp
qed

theorem poll_for_token_default_resource_url_witness:
  "poll_for_token example_device granted_world =
     (Inr granted_creds,
      save_oauth_creds granted_creds (polled example_device [granted_reply] granted_world))
   \<and> tb_resource_url granted_body = None
   \<and> resource_url granted_creds = ''https://dashscope.aliyuncs.com/compatible-mode''"
proof -
  let ?w' = "save_oauth_creds granted_creds (polled example_device [granted_reply] granted_world)"
  have run: "poll_for_token example_device granted_world = (Inr granted_creds, ?w')"
    by (rule poll_for_token_granted_world)
  let ?P = "\<lambda>pre r rs response data.
       token_endpoint granted_world = pre @ r # rs \<and> token_endpoint ?w' = rs
       \<and> outcome r = Inr response \<and> status_code response = 200
       \<and> json_body response = Some data
       \<and> (tb_resource_url data = None \<longrightarrow>
            resource_url granted_creds = ''https://dashscope.aliyuncs.com/compatible-mode'')
       \<and> (\<forall>u. tb_resource_url data = Some u \<longrightarrow> resource_url granted_creds = u)
       \<and> oauth_creds ?w' = Some granted_creds \<and> creds_file ?w' = Some (Wellformed granted_creds)"
  have "\<exists>pre r rs response data. ?P pre r rs response data"
    using poll_for_token_default_resource_url [of example_device granted_world granted_creds ?w',
      THEN conjunct2, rule_format, OF run] .
  then obtain pre where "\<exists>r rs response data. ?P pre r rs response data" ..
  then obtain r where "\<exists>rs response data. ?P pre r rs response data" ..
  then obtain rs where "\<exists>response data. ?P pre r rs response data" ..
  then obtain response where "\<exists>data. ?P pre r rs response data" ..
  then obtain data where p: "?P pre r rs response data" ..
  have "token_endpoint granted_world = [granted_reply]"
    by (simp add: granted_world_def example_world_def)
  with p have "pre = [] \<and> r = granted_reply"
    by (cases pre) simp_all
  with p have "data = granted_body"
    by (auto simp: granted_reply_eq)
  moreover have n: "tb_resource_url granted_body = None"
    by (simp add: granted_body_def)
  ultimately have "resource_url granted_creds = ''https://dashscope.aliyuncs.com/compatible-mode''"
    using p by simp
  with run n show ?thesis by simp
qed

section \<open>The retry policy of the dispatcher\<close>

lemma policy_trace_log_event:
  "policy_trace (log_event e w) = policy_trace w @ (if policy_event e then [e] else [])"
  by (simp add: policy_trace_def log_event_def)

lemma policy_trace_cong:
  "events w' = events w \<Longrightarrow> policy_trace w' = policy_trace w"
  by (simp add: policy_trace_def)

lemma policy_trace_sleep: "policy_trace (sleep d w) = policy_trace w"
  by (simp add: sleep_def policy_trace_def log_event_def)

lemma policy_trace_post_token: "policy_trace (snd (post_token g w)) = policy_trace w"
  by (simp add: post_token_def policy_trace_def log_event_def split: list.splits)

lemma policy_trace_post_device: "policy_trace (snd (post_device w)) = policy_trace w"
  by (simp add: post_device_def policy_trace_def log_event_def split: list.splits)

lemma policy_trace_post_chat:
  "policy_trace (snd (post_chat url a stream w)) = policy_trace w @ [ChatPost url a stream]"
  by (simp add: post_chat_def policy_trace_def log_event_def split: list.splits)

lemma policy_trace_save: "policy_trace (save_oauth_creds c w) = policy_trace w"
  by (simp add: save_oauth_creds_def policy_trace_def)

lemma policy_trace_poll_success: "policy_trace (snd (poll_success data w)) = policy_trace w"
  by (simp add: poll_success_def policy_trace_save Let_def split: option.splits)

lemma policy_trace_refresh_success:
  "policy_trace (snd (refresh_success old data w)) = policy_trace w"
  by (simp add: refresh_success_def policy_trace_save Let_def split: option.splits)

lemma policy_trace_poll_loop: "policy_trace (snd (poll_loop d s iv w)) = policy_trace w"
proof (induction d s iv w rule: poll_loop.induct)
  case (1 d s iv w)
  let ?g = "DeviceCodeGrant (device_code d)"
  obtain x w1 where post: "post_token ?g (sleep iv w) = (x, w1)"
    by (cases "post_token ?g (sleep iv w)")
  then have w1: "policy_trace w1 = policy_trace w"
    using policy_trace_post_token [of ?g "sleep iv w"] by (simp add: policy_trace_sleep)
  show ?case
  proof (cases "clock w - s < of_int (expires_in d)")
    case False
    then show ?thesis by simp
  next
    case in_time: True
    show ?thesis
    proof (cases x)
      case (Inl e)
      with in_time post w1 show ?thesis
        by (subst poll_loop.simps) simp
    next
      case (Inr response)
      show ?thesis
      proof (cases "json_body response")
        case None
        with in_time post w1 Inr show ?thesis
          by (subst poll_loop.simps) simp
      next
        case (Some data)
        from "1.IH"(1) [OF in_time post [symmetric] Inr Some]
        have ih1: "status_code response \<noteq> 200 \<Longrightarrow> tb_error data = Some ''authorization_pending''
            \<Longrightarrow> policy_trace (snd (poll_loop d s iv w1)) = policy_trace w1"
          by simp
        from "1.IH"(2) [OF in_time post [symmetric] Inr Some]
        have ih2: "status_code response \<noteq> 200 \<Longrightarrow> tb_error data \<noteq> Some ''authorization_pending''
            \<Longrightarrow> tb_error data = Some ''slow_down''
            \<Longrightarrow> policy_trace (snd (poll_loop d s (min (iv * 1.5) 10) w1)) = policy_trace w1"
          by simp
        from in_time post w1 Inr Some ih1 ih2 show ?thesis
          by (subst poll_loop.simps) (simp add: policy_trace_poll_success del: poll_loop.simps)
      qed
    qed
  qed
qed

lemma policy_trace_poll_for_token:
  "policy_trace (snd (poll_for_token d w)) = policy_trace w"
  by (simp add: poll_for_token_def policy_trace_poll_loop del: poll_loop.simps)

lemma policy_trace_perform_device_auth:
  "policy_trace (snd (perform_device_auth w)) = policy_trace w"
proof -
  obtain x w1 where post: "post_device w = (x, w1)"
    by (cases "post_device w")
  then have "policy_trace w1 = policy_trace w"
    using policy_trace_post_device [of w] by simp
  with post show ?thesis
    by (simp add: perform_device_auth_def split: sum.splits parsed.splits)
qed

lemma policy_trace_authenticate:
  "policy_trace (snd (authenticate w)) = policy_trace w @ [Authenticate]"
proof -
  let ?w0 = "log_event Authenticate w"
  obtain x w1 where dev: "perform_device_auth ?w0 = (x, w1)"
    by (cases "perform_device_auth ?w0")
  then have w1: "policy_trace w1 = policy_trace w @ [Authenticate]"
    using policy_trace_perform_device_auth [of ?w0] by (simp add: policy_trace_log_event)
  show ?thesis
  proof (cases x)
    case (Inl e)
    with dev w1 show ?thesis by (simp add: authenticate_def)
  next
    case (Inr device_auth)
    let ?w2 = "log_event (ShowUrl (verification_uri_complete device_auth)) w1"
    obtain y w3 where poll: "poll_for_token device_auth ?w2 = (y, w3)"
      by (cases "poll_for_token device_auth ?w2")
    then have "policy_trace w3 = policy_trace w1"
      using policy_trace_poll_for_token [of device_auth ?w2] by (simp add: policy_trace_log_event)
    with dev w1 Inr poll show ?thesis
      by (simp add: authenticate_def split: sum.splits)
  qed
qed

lemma policy_trace_refresh_token_op:
  "policy_trace (snd (refresh_token_op w)) = policy_trace w @ [Refresh]"
proof -
  let ?w0 = "log_event Refresh w"
  have w0: "policy_trace ?w0 = policy_trace w @ [Refresh]"
    by (simp add: policy_trace_log_event)
  show ?thesis
  proof (cases "oauth_creds w")
    case None
    with w0 show ?thesis by (simp add: refresh_token_op_def Let_def log_event_def)
  next
    case (Some old)
    let ?g = "RefreshTokenGrant (refresh_token old)"
    obtain x w1 where post: "post_token ?g ?w0 = (x, w1)"
      by (cases "post_token ?g ?w0")
    then have w1: "policy_trace w1 = policy_trace w @ [Refresh]"
      using policy_trace_post_token [of ?g ?w0] w0 by simp
    have c: "oauth_creds ?w0 = Some old"
      using Some by (simp add: log_event_def)
    have clear: "policy_trace (w1\<lparr>oauth_creds := None, creds_file := None\<rparr>) = policy_trace w1"
      by (simp add: policy_trace_def)
    from c post w1 clear show ?thesis
      by (simp add: refresh_token_op_def Let_def policy_trace_refresh_success
          split: sum.splits option.splits)
  qed
qed

lemma ensure_valid_token_valid:
  "\<not> is_token_expired (oauth_creds w) (clock w) \<Longrightarrow> ensure_valid_token w = (Inr (), w)"
  by (simp add: ensure_valid_token_def)

lemma valid_has_creds:
  "\<not> is_token_expired (oauth_creds w) (clock w) \<Longrightarrow> \<exists>c. oauth_creds w = Some c"
  by (cases "oauth_creds w") (simp_all add: is_token_expired_def)

lemma post_chat_Cons:
  "chat_endpoint w = r # rs \<Longrightarrow>
   post_chat url a stream w =
     (outcome r, w\<lparr>clock := clock w + delay r, chat_endpoint := rs,
                   events := events w @ [ChatPost url a stream]\<rparr>)"
  by (simp add: post_chat_def log_event_def)

lemma authenticate_and_resend_trace:
  "\<exists>b. policy_trace (snd (authenticate_and_resend url stream w)) = policy_trace w @ [Authenticate]
     \<or> policy_trace (snd (authenticate_and_resend url stream w)) =
         policy_trace w @ [Authenticate, ChatPost url b stream]"
proof -
  obtain x w1 where a: "authenticate w = (x, w1)"
    by (cases "authenticate w")
  then have w1: "policy_trace w1 = policy_trace w @ [Authenticate]"
    using policy_trace_authenticate [of w] by simp
  show ?thesis
  proof (cases x)
    case (Inl e)
    with a w1 show ?thesis by (simp add: authenticate_and_resend_def)
  next
    case (Inr u)
    show ?thesis
    proof (cases "bearer w1")
      case (Inl e)
      with a w1 Inr show ?thesis by (simp add: authenticate_and_resend_def)
    next
      case b: (Inr authorization)
      have "policy_trace (snd (post_chat url authorization stream w1)) =
          policy_trace w @ [Authenticate, ChatPost url authorization stream]"
        by (simp add: policy_trace_post_chat w1)
      with a Inr b show ?thesis
        by (auto simp: authenticate_and_resend_def)
    qed
  qed
qed

lemma retry_trace:
  "\<exists>a b t. policy_trace (snd (retry url stream w)) = policy_trace w @ Refresh # t
     \<and> t \<in> {[ChatPost url a stream],
              [Authenticate],
              [Authenticate, ChatPost url b stream],
              [ChatPost url a stream, Authenticate],
              [ChatPost url a stream, Authenticate, ChatPost url b stream]}"
proof -
  obtain x w1 where r: "refresh_token_op w = (x, w1)"
    by (cases "refresh_token_op w")
  then have w1: "policy_trace w1 = policy_trace w @ [Refresh]"
    using policy_trace_refresh_token_op [of w] by simp
  obtain b where auth1: "policy_trace (snd (authenticate_and_resend url stream w1)) =
        policy_trace w1 @ [Authenticate]
     \<or> policy_trace (snd (authenticate_and_resend url stream w1)) =
         policy_trace w1 @ [Authenticate, ChatPost url b stream]"
    using authenticate_and_resend_trace [of url stream w1] by auto
  have direct: "retry url stream w = authenticate_and_resend url stream w1 \<Longrightarrow> ?thesis"
    using auth1 w1 by auto
  show ?thesis
  proof (cases x)
    case (Inl e)
    with r have "retry url stream w = authenticate_and_resend url stream w1"
      by (simp add: retry_def refresh_and_resend_def)
    then show ?thesis by (rule direct)
  next
    case (Inr u)
    show ?thesis
    proof (cases "bearer w1")
      case (Inl e)
      with r Inr have "retry url stream w = authenticate_and_resend url stream w1"
        by (simp add: retry_def refresh_and_resend_def)
      then show ?thesis by (rule direct)
    next
      case a: (Inr a)
      obtain y w2 where p: "post_chat url a stream w1 = (y, w2)"
        by (cases "post_chat url a stream w1")
      then have w2: "policy_trace w2 = policy_trace w @ [Refresh, ChatPost url a stream]"
        using policy_trace_post_chat [of url a stream w1] w1 by simp
      show ?thesis
      proof (cases y)
        case (Inr response)
        with r \<open>x = Inr u\<close> a p have "retry url stream w = (Inr response, w2)"
          by (simp add: retry_def refresh_and_resend_def)
        with w2 show ?thesis by auto
      next
        case (Inl e)
        with r \<open>x = Inr u\<close> a p have "retry url stream w = authenticate_and_resend url stream w2"
          by (simp add: retry_def refresh_and_resend_def)
        moreover obtain b' where "policy_trace (snd (authenticate_and_resend url stream w2)) =
              policy_trace w2 @ [Authenticate]
           \<or> policy_trace (snd (authenticate_and_resend url stream w2)) =
               policy_trace w2 @ [Authenticate, ChatPost url b' stream]"
          using authenticate_and_resend_trace [of url stream w2] by auto
        ultimately show ?thesis using w2 by auto
      qed
    qed
  qed
qed

lemma policy_trace_post_chat_result:
  "post_chat url a stream w = (x, w') \<Longrightarrow> policy_trace w' = policy_trace w @ [ChatPost url a stream]"
  using policy_trace_post_chat [of url a stream w] by simp

lemma policy_trace_refresh_result:
  "refresh_token_op w = (x, w') \<Longrightarrow> policy_trace w' = policy_trace w @ [Refresh]"
  using policy_trace_refresh_token_op [of w] by simp

lemma make_request_unfold:
  assumes "ensure_valid_token w = (Inr (), w0)" and "oauth_creds w0 = Some c"
  shows "make_request stream w =
     (case post_chat (api_url (resource_url c)) (''Bearer '' @ access_token c) stream w0 of
        (Inl e, w1) \<Rightarrow> (Inl e, w1)
      | (Inr response, w1) \<Rightarrow>
          (case (if status_code response \<in> {400, 401, 403}
                 then retry (api_url (resource_url c)) stream w1
                 else (Inr response, w1)) of
             (Inl e, w2) \<Rightarrow> (Inl e, w2)
           | (Inr final, w2) \<Rightarrow> (deliver stream final, w2)))"
  using assms by (simp add: make_request_def)

lemma make_request_trace:
  assumes "ensure_valid_token w = (Inr (), w0)" and "oauth_creds w0 = Some c"
  shows "\<exists>a b t. policy_trace (snd (make_request stream w)) =
        policy_trace w0 @ ChatPost (api_url (resource_url c)) (''Bearer '' @ access_token c) stream # t
     \<and> t \<in> {[],
              [Refresh, ChatPost (api_url (resource_url c)) a stream],
              [Refresh, Authenticate],
              [Refresh, Authenticate, ChatPost (api_url (resource_url c)) b stream],
              [Refresh, ChatPost (api_url (resource_url c)) a stream, Authenticate],
              [Refresh, ChatPost (api_url (resource_url c)) a stream, Authenticate,
               ChatPost (api_url (resource_url c)) b stream]}"
proof -
  let ?url = "api_url (resource_url c)"
  let ?auth = "''Bearer '' @ access_token c"
  obtain x w1 where p: "post_chat ?url ?auth stream w0 = (x, w1)"
    by (cases "post_chat ?url ?auth stream w0")
  then have w1: "policy_trace w1 = policy_trace w0 @ [ChatPost ?url ?auth stream]"
    using policy_trace_post_chat [of ?url ?auth stream w0] by simp
  note mr = make_request_unfold [OF assms, of stream]
  show ?thesis
  proof (cases x)
    case (Inl e)
    with mr p w1 show ?thesis by simp
  next
    case (Inr response)
    show ?thesis
    proof (cases "status_code response \<in> {400, 401, 403}")
      case False
      with mr p w1 Inr show ?thesis by simp
    next
      case True
      obtain y w2 where r: "retry ?url stream w1 = (y, w2)"
        by (cases "retry ?url stream w1")
      from retry_trace [of ?url stream w1] r obtain a b t where
        t: "policy_trace w2 = policy_trace w1 @ Refresh # t"
           "t \<in> {[ChatPost ?url a stream], [Authenticate], [Authenticate, ChatPost ?url b stream],
              [ChatPost ?url a stream, Authenticate],
              [ChatPost ?url a stream, Authenticate, ChatPost ?url b stream]}"
        by auto
      from mr p Inr True r have "snd (make_request stream w) = w2"
        by (simp split: sum.splits)
      with t w1 show ?thesis
        by (intro exI [of _ a] exI [of _ b] exI [of _ "Refresh # t"]) auto
    qed
  qed
qed

lemma make_request_refreshed:
  assumes "ensure_valid_token w = (Inr (), w0)" and "oauth_creds w0 = Some c"
    and "post_chat (api_url (resource_url c)) (''Bearer '' @ access_token c) stream w0 =
           (Inr response, w1)"
    and "status_code response \<in> {400, 401, 403}"
    and "refresh_token_op w1 = (Inr (), w2)" and "oauth_creds w2 = Some c2"
    and "post_chat (api_url (resource_url c)) (''Bearer '' @ access_token c2) stream w2 =
           (Inr response2, w3)"
  shows "make_request stream w = (deliver stream response2, w3)"
    and "policy_trace w3 = policy_trace w0 @
       [ChatPost (api_url (resource_url c)) (''Bearer '' @ access_token c) stream, Refresh,
        ChatPost (api_url (resource_url c)) (''Bearer '' @ access_token c2) stream]"
proof -
  show "make_request stream w = (deliver stream response2, w3)"
    using assms
    by (simp add: make_request_unfold [OF assms(1,2)] retry_def refresh_and_resend_def bearer_def)
  have "policy_trace w1 = policy_trace w0 @
      [ChatPost (api_url (resource_url c)) (''Bearer '' @ access_token c) stream]"
    using assms(3) by (rule policy_trace_post_chat_result)
  moreover have "policy_trace w2 = policy_trace w1 @ [Refresh]"
    using assms(5) by (rule policy_trace_refresh_result)
  moreover have "policy_trace w3 = policy_trace w2 @
      [ChatPost (api_url (resource_url c)) (''Bearer '' @ access_token c2) stream]"
    using assms(7) by (rule policy_trace_post_chat_result)
  ultimately show "policy_trace w3 = policy_trace w0 @
       [ChatPost (api_url (resource_url c)) (''Bearer '' @ access_token c) stream, Refresh,
        ChatPost (api_url (resource_url c)) (''Bearer '' @ access_token c2) stream]"
    by simp
qed

lemma authenticate_and_resend_starts:
  "\<exists>t. policy_trace (snd (authenticate_and_resend url stream w)) = policy_trace w @ Authenticate # t"
  using authenticate_and_resend_trace [of url stream w] by auto

lemma snd_finish:
  "snd (case x of (Inl e, w') \<Rightarrow> (Inl e, w') | (Inr final, w') \<Rightarrow> (f final, w')) = snd x"
  by (cases x) (simp split: sum.splits)

lemma make_request_refresh_raised:
  assumes "ensure_valid_token w = (Inr (), w0)" and "oauth_creds w0 = Some c"
    and "post_chat (api_url (resource_url c)) (''Bearer '' @ access_token c) stream w0 =
           (Inr response, w1)"
    and "status_code response \<in> {400, 401, 403}"
    and "refresh_token_op w1 = (Inl e, w2)"
  shows "make_request stream w =
       (case authenticate_and_resend (api_url (resource_url c)) stream w2 of
          (Inl e', w') \<Rightarrow> (Inl e', w')
        | (Inr final, w') \<Rightarrow> (deliver stream final, w'))"
    and "\<exists>t. policy_trace (snd (make_request stream w)) = policy_trace w0 @
       ChatPost (api_url (resource_url c)) (''Bearer '' @ access_token c) stream
         # Refresh # Authenticate # t"
proof -
  show mr: "make_request stream w =
       (case authenticate_and_resend (api_url (resource_url c)) stream w2 of
          (Inl e', w') \<Rightarrow> (Inl e', w')
        | (Inr final, w') \<Rightarrow> (deliver stream final, w'))"
    using assms
    by (simp add: make_request_unfold [OF assms(1,2)] retry_def refresh_and_resend_def)
  have "policy_trace w1 = policy_trace w0 @
      [ChatPost (api_url (resource_url c)) (''Bearer '' @ access_token c) stream]"
    using assms(3) by (rule policy_trace_post_chat_result)
  moreover have "policy_trace w2 = policy_trace w1 @ [Refresh]"
    using assms(5) by (rule policy_trace_refresh_result)
  moreover obtain t where
    "policy_trace (snd (authenticate_and_resend (api_url (resource_url c)) stream w2)) =
       policy_trace w2 @ Authenticate # t"
    using authenticate_and_resend_starts by blast
  ultimately show "\<exists>t. policy_trace (snd (make_request stream w)) = policy_trace w0 @
       ChatPost (api_url (resource_url c)) (''Bearer '' @ access_token c) stream
         # Refresh # Authenticate # t"
    by (simp add: mr snd_finish)
qed

lemma make_request_resend_raised:
  assumes "ensure_valid_token w = (Inr (), w0)" and "oauth_creds w0 = Some c"
    and "post_chat (api_url (resource_url c)) (''Bearer '' @ access_token c) stream w0 =
           (Inr response, w1)"
    and "status_code response \<in> {400, 401, 403}"
    and "refresh_token_op w1 = (Inr (), w2)" and "oauth_creds w2 = Some c2"
    and "post_chat (api_url (resource_url c)) (''Bearer '' @ access_token c2) stream w2 =
           (Inl e, w3)"
  shows "make_request stream w =
       (case authenticate_and_resend (api_url (resource_url c)) stream w3 of
          (Inl e', w') \<Rightarrow> (Inl e', w')
        | (Inr final, w') \<Rightarrow> (deliver stream final, w'))"
    and "\<exists>t. policy_trace (snd (make_request stream w)) = policy_trace w0 @
       ChatPost (api_url (resource_url c)) (''Bearer '' @ access_token c) stream
         # Refresh # ChatPost (api_url (resource_url c)) (''Bearer '' @ access_token c2) stream
         # Authenticate # t"
proof -
  show mr: "make_request stream w =
       (case authenticate_and_resend (api_url (resource_url c)) stream w3 of
          (Inl e', w') \<Rightarrow> (Inl e', w')
        | (Inr final, w') \<Rightarrow> (deliver stream final, w'))"
    using assms
    by (simp add: make_request_unfold [OF assms(1,2)] retry_def refresh_and_resend_def bearer_def)
  have "policy_trace w1 = policy_trace w0 @
      [ChatPost (api_url (resource_url c)) (''Bearer '' @ access_token c) stream]"
    using assms(3) by (rule policy_trace_post_chat_result)
  moreover have "policy_trace w2 = policy_trace w1 @ [Refresh]"
    using assms(5) by (rule policy_trace_refresh_result)
  moreover have "policy_trace w3 = policy_trace w2 @
      [ChatPost (api_url (resource_url c)) (''Bearer '' @ access_token c2) stream]"
    using assms(7) by (rule policy_trace_post_chat_result)
  moreover obtain t where
    "policy_trace (snd (authenticate_and_resend (api_url (resource_url c)) stream w3)) =
       policy_trace w3 @ Authenticate # t"
    using authenticate_and_resend_starts by blast
  ultimately show "\<exists>t. policy_trace (snd (make_request stream w)) = policy_trace w0 @
       ChatPost (api_url (resource_url c)) (''Bearer '' @ access_token c) stream
         # Refresh # ChatPost (api_url (resource_url c)) (''Bearer '' @ access_token c2) stream
         # Authenticate # t"
    by (simp add: mr snd_finish)
qed

lemmas example_defs = example_world_def example_creds_def chat_reply_def granted_reply_def
  granted_body_def error_reply_def failed_reply_def example_url_def

lemmas run_defs = make_request_def ensure_valid_token_def is_token_expired_def api_url_def
  post_chat_def log_event_def retry_def refresh_and_resend_def authenticate_and_resend_def
  refresh_token_op_def refresh_success_def post_token_def save_oauth_creds_def bearer_def
  authenticate_def perform_device_auth_def post_device_def deliver_def raises_for_status_def
  Let_def

lemma run_revoked:
  "fst (make_request False revoked_world) = Inr (Body ''{}'')"
  "events (snd (make_request False revoked_world)) =
     [ChatPost example_url ''Bearer t0'' False, Refresh, TokenPost (RefreshTokenGrant ''r0''),
      ChatPost example_url ''Bearer t1'' False]"
  by (simp_all add: revoked_world_def example_defs run_defs)

lemma run_dropped:
  "fst (make_request False dropped_world) = Inl ConnectionError"
  "events (snd (make_request False dropped_world)) =
     [ChatPost example_url ''Bearer t0'' False, Refresh, TokenPost (RefreshTokenGrant ''r0''),
      ChatPost example_url ''Bearer t1'' False, Authenticate, DevicePost]"
  by (simp_all add: dropped_world_def example_defs run_defs)

lemma refresh_token_op_keeps_creds:
  assumes "refresh_token_op w1 = (Inr u, w2)"
  shows "\<exists>c2. oauth_creds w2 = Some c2"
proof (cases "oauth_creds w1")
  case None
  with assms show ?thesis
    by (simp add: refresh_token_op_def Let_def log_event_def)
next
  case (Some old)
  let ?w0 = "log_event Refresh w1"
  obtain x w' where post: "post_token (RefreshTokenGrant (refresh_token old)) ?w0 = (x, w')"
    by (cases "post_token (RefreshTokenGrant (refresh_token old)) ?w0")
  have c: "oauth_creds ?w0 = Some old"
    using Some by (simp add: log_event_def)
  from assms c post show ?thesis
    by (auto simp: refresh_token_op_def refresh_success_def save_oauth_creds_def Let_def
        split: sum.splits option.splits if_splits)
qed

text \<open>
  C1, amended. For every chat dispatch that reaches its first request with the credential
  \<open>c\<close>: when the first response has a status in {400, 401, 403}, the dispatcher calls the
  refresh once and, if it returns, resends once; it runs the device flow, at most once and
  followed by at most one resend, exactly when the refresh or the resend after it raises.
  A 401, a refresh that succeeds and a response to the resend give that second response
  to \<open>deliver\<close>, after exactly one refresh and one resend and no device flow. A status from
  400 to 599 left after the last attempt raises \<^verbatim>\<open>HTTPError\<close>; otherwise a request that
  does not stream returns the parsed body. For every script of replies the requests,
  refreshes and device flows of the dispatch are one of six sequences: at most three chat
  requests, one refresh and one device flow.
\<close>

theorem make_request_retry_policy:
  "((ensure_valid_token w = (Inl e0, w0)) \<longrightarrow>
      make_request stream w = (Inl e0, w0))
   \<and> ((ensure_valid_token w = (Inr (), w0) \<and> oauth_creds w0 = Some c) \<longrightarrow>
      (\<exists>a b t. policy_trace (snd (make_request stream w)) =
            policy_trace w0 @ ChatPost (api_url (resource_url c)) (''Bearer '' @ access_token c) stream # t
          \<and> t \<in> {[],
               [Refresh, ChatPost (api_url (resource_url c)) a stream],
               [Refresh, Authenticate],
               [Refresh, Authenticate, ChatPost (api_url (resource_url c)) b stream],
               [Refresh, ChatPost (api_url (resource_url c)) a stream, Authenticate],
               [Refresh, ChatPost (api_url (resource_url c)) a stream, Authenticate,
                ChatPost (api_url (resource_url c)) b stream]}))
   \<and> ((ensure_valid_token w = (Inr (), w0) \<and> oauth_creds w0 = Some c
      \<and> post_chat (api_url (resource_url c)) (''Bearer '' @ access_token c) stream w0 = (Inl e1, w1)) \<longrightarrow>
      make_request stream w = (Inl e1, w1))
   \<and> ((ensure_valid_token w = (Inr (), w0) \<and> oauth_creds w0 = Some c
      \<and> post_chat (api_url (resource_url c)) (''Bearer '' @ access_token c) stream w0 = (Inr response, w1)
      \<and> status_code response \<notin> {400, 401, 403}) \<longrightarrow>
      make_request stream w = (deliver stream response, w1))
   \<and> ((ensure_valid_token w = (Inr (), w0) \<and> oauth_creds w0 = Some c
      \<and> post_chat (api_url (resource_url c)) (''Bearer '' @ access_token c) stream w0 = (Inr response, w1)
      \<and> status_code response \<in> {400, 401, 403}
      \<and> refresh_token_op w1 = (Inr (), w2) \<and> oauth_creds w2 = Some c2
      \<and> post_chat (api_url (resource_url c)) (''Bearer '' @ access_token c2) stream w2 = (Inr response2, w3)) \<longrightarrow>
      make_request stream w = (deliver stream response2, w3)
      \<and> policy_trace w3 = policy_trace w0 @
           [ChatPost (api_url (resource_url c)) (''Bearer '' @ access_token c) stream, Refresh,
            ChatPost (api_url (resource_url c)) (''Bearer '' @ access_token c2) stream])
   \<and> ((ensure_valid_token w = (Inr (), w0) \<and> oauth_creds w0 = Some c
      \<and> post_chat (api_url (resource_url c)) (''Bearer '' @ access_token c) stream w0 = (Inr response, w1)
      \<and> status_code response \<in> {400, 401, 403}
      \<and> refresh_token_op w1 = (Inr (), w2) \<and> oauth_creds w2 = Some c2
      \<and> post_chat (api_url (resource_url c)) (''Bearer '' @ access_token c2) stream w2 = (Inl e3, w3)) \<longrightarrow>
      make_request stream w =
          (case authenticate_and_resend (api_url (resource_url c)) stream w3 of
             (Inl e', w') \<Rightarrow> (Inl e', w')
           | (Inr final', w') \<Rightarrow> (deliver stream final', w'))
      \<and> (\<exists>t. policy_trace (snd (make_request stream w)) = policy_trace w0 @
             ChatPost (api_url (resource_url c)) (''Bearer '' @ access_token c) stream # Refresh
               # ChatPost (api_url (resource_url c)) (''Bearer '' @ access_token c2) stream # Authenticate # t))
   \<and> ((ensure_valid_token w = (Inr (), w0) \<and> oauth_creds w0 = Some c
      \<and> post_chat (api_url (resource_url c)) (''Bearer '' @ access_token c) stream w0 = (Inr response, w1)
      \<and> status_code response \<in> {400, 401, 403}
      \<and> refresh_token_op w1 = (Inl e2, w2)) \<longrightarrow>
      make_request stream w =
          (case authenticate_and_resend (api_url (resource_url c)) stream w2 of
             (Inl e', w') \<Rightarrow> (Inl e', w')
           | (Inr final', w') \<Rightarrow> (deliver stream final', w'))
      \<and> (\<exists>t. policy_trace (snd (make_request stream w)) = policy_trace w0 @
             ChatPost (api_url (resource_url c)) (''Bearer '' @ access_token c) stream # Refresh # Authenticate # t))
   \<and> ((raises_for_status (status_code final)) \<longrightarrow>
      deliver stream final = Inl (HTTPError (status_code final)))
   \<and> ((\<not> raises_for_status (status_code final) \<and> chat_json (json_body final) = Some body) \<longrightarrow>
      deliver False final = Inr (Body body))
   \<and> ((refresh_token_op w1 = (Inr u, w2)) \<longrightarrow>
      (\<exists>c2. oauth_creds w2 = Some c2))"
proof -
  have c1: "(ensure_valid_token w = (Inl e0, w0)) \<longrightarrow>
      make_request stream w = (Inl e0, w0)"
    by (simp add: make_request_def)
  have c2: "(ensure_valid_token w = (Inr (), w0) \<and> oauth_creds w0 = Some c) \<longrightarrow>
      (\<exists>a b t. policy_trace (snd (make_request stream w)) =
            policy_trace w0 @ ChatPost (api_url (resource_url c)) (''Bearer '' @ access_token c) stream # t
          \<and> t \<in> {[],
               [Refresh, ChatPost (api_url (resource_url c)) a stream],
               [Refresh, Authenticate],
               [Refresh, Authenticate, ChatPost (api_url (resource_url c)) b stream],
               [Refresh, ChatPost (api_url (resource_url c)) a stream, Authenticate],
               [Refresh, ChatPost (api_url (resource_url c)) a stream, Authenticate,
                ChatPost (api_url (resource_url c)) b stream]})"
    by (rule impI, rule make_request_trace) auto
  have c3: "(ensure_valid_token w = (Inr (), w0) \<and> oauth_creds w0 = Some c
      \<and> post_chat (api_url (resource_url c)) (''Bearer '' @ access_token c) stream w0 = (Inl e1, w1)) \<longrightarrow>
      make_request stream w = (Inl e1, w1)"
    by (simp add: make_request_unfold [where ?w0.0 = w0 and c = c])
  have c4: "(ensure_valid_token w = (Inr (), w0) \<and> oauth_creds w0 = Some c
      \<and> post_chat (api_url (resource_url c)) (''Bearer '' @ access_token c) stream w0 = (Inr response, w1)
      \<and> status_code response \<notin> {400, 401, 403}) \<longrightarrow>
      make_request stream w = (deliver stream response, w1)"
    by (simp add: make_request_unfold [where ?w0.0 = w0 and c = c])
  have c5: "(ensure_valid_token w = (Inr (), w0) \<and> oauth_creds w0 = Some c
      \<and> post_chat (api_url (resource_url c)) (''Bearer '' @ access_token c) stream w0 = (Inr response, w1)
      \<and> status_code response \<in> {400, 401, 403}
      \<and> refresh_token_op w1 = (Inr (), w2) \<and> oauth_creds w2 = Some c2
      \<and> post_chat (api_url (resource_url c)) (''Bearer '' @ access_token c2) stream w2 = (Inr response2, w3)) \<longrightarrow>
      make_request stream w = (deliver stream response2, w3)
      \<and> policy_trace w3 = policy_trace w0 @
           [ChatPost (api_url (resource_url c)) (''Bearer '' @ access_token c) stream, Refresh,
            ChatPost (api_url (resource_url c)) (''Bearer '' @ access_token c2) stream]"
    using make_request_refreshed [where w = w and ?w0.0 = w0 and c = c and stream = stream
        and response = response and ?w1.0 = w1 and ?w2.0 = w2 and ?c2.0 = c2
        and ?response2.0 = response2 and ?w3.0 = w3] by simp
  have c6: "(ensure_valid_token w = (Inr (), w0) \<and> oauth_creds w0 = Some c
      \<and> post_chat (api_url (resource_url c)) (''Bearer '' @ access_token c) stream w0 = (Inr response, w1)
      \<and> status_code response \<in> {400, 401, 403}
      \<and> refresh_token_op w1 = (Inr (), w2) \<and> oauth_creds w2 = Some c2
      \<and> post_chat (api_url (resource_url c)) (''Bearer '' @ access_token c2) stream w2 = (Inl e3, w3)) \<longrightarrow>
      make_request stream w =
          (case authenticate_and_resend (api_url (resource_url c)) stream w3 of
             (Inl e', w') \<Rightarrow> (Inl e', w')
           | (Inr final', w') \<Rightarrow> (deliver stream final', w'))
      \<and> (\<exists>t. policy_trace (snd (make_request stream w)) = policy_trace w0 @
             ChatPost (api_url (resource_url c)) (''Bearer '' @ access_token c) stream # Refresh
               # ChatPost (api_url (resource_url c)) (''Bearer '' @ access_token c2) stream # Authenticate # t)"
    using make_request_resend_raised [where w = w and ?w0.0 = w0 and c = c and stream = stream
        and response = response and ?w1.0 = w1 and ?w2.0 = w2 and ?c2.0 = c2
        and e = e3 and ?w3.0 = w3] by simp
  have c7: "(ensure_valid_token w = (Inr (), w0) \<and> oauth_creds w0 = Some c
      \<and> post_chat (api_url (resource_url c)) (''Bearer '' @ access_token c) stream w0 = (Inr response, w1)
      \<and> status_code response \<in> {400, 401, 403}
      \<and> refresh_token_op w1 = (Inl e2, w2)) \<longrightarrow>
      make_request stream w =
          (case authenticate_and_resend (api_url (resource_url c)) stream w2 of
             (Inl e', w') \<Rightarrow> (Inl e', w')
           | (Inr final', w') \<Rightarrow> (deliver stream final', w'))
      \<and> (\<exists>t. policy_trace (snd (make_request stream w)) = policy_trace w0 @
             ChatPost (api_url (resource_url c)) (''Bearer '' @ access_token c) stream # Refresh # Authenticate # t)"
    using make_request_refresh_raised [where w = w and ?w0.0 = w0 and c = c and stream = stream
        and response = response and ?w1.0 = w1 and ?w2.0 = w2 and e = e2] by simp
  have c8: "(raises_for_status (status_code final)) \<longrightarrow>
      deliver stream final = Inl (HTTPError (status_code final))"
    by (simp add: deliver_def)
  have c9: "(\<not> raises_for_status (status_code final) \<and> chat_json (json_body final) = Some body) \<longrightarrow>
      deliver False final = Inr (Body body)"
    by (simp add: deliver_def)
  have c10: "(refresh_token_op w1 = (Inr u, w2)) \<longrightarrow>
      (\<exists>c2. oauth_creds w2 = Some c2)"
    by (rule impI) (rule refresh_token_op_keeps_creds)
  show ?thesis
    by (intro conjI c1 c2 c3 c4 c5 c6 c7 c8 c9 c10)
qed

lemmas witness_defs = signed_out_world_def revoked_world_def dropped_world_def refused_world_def
  plain_world_def example_defs run_defs policy_trace_def

text \<open>
  The policy on concrete states: the device flow fails before the first request; the first
  request raises; a 200 at once; 401, refresh, 200; 401, refresh, a resend that raises; 403
  and a refresh that is refused.
\<close>

theorem make_request_retry_policy_witness:
  "fst (make_request False signed_out_world) = Inl ConnectionError
   \<and> fst (make_request False example_world) = Inl ConnectionError
      \<and> policy_trace (snd (make_request False example_world)) =
          [ChatPost example_url ''Bearer t0'' False]
   \<and> fst (make_request False plain_world) = Inr (Body ''{}'')
      \<and> policy_trace (snd (make_request False plain_world)) =
          [ChatPost example_url ''Bearer t0'' False]
   \<and> fst (make_request False revoked_world) = Inr (Body ''{}'')
      \<and> policy_trace (snd (make_request False revoked_world)) =
          [ChatPost example_url ''Bearer t0'' False, Refresh,
           ChatPost example_url ''Bearer t1'' False]
   \<and> (\<exists>t. policy_trace (snd (make_request False dropped_world)) =
          ChatPost example_url ''Bearer t0'' False # Refresh
            # ChatPost example_url ''Bearer t1'' False # Authenticate # t)
   \<and> (\<exists>t. policy_trace (snd (make_request False refused_world)) =
          ChatPost example_url ''Bearer t0'' False # Refresh # Authenticate # t)
   \<and> deliver False (\<lparr>status_code = 401, json_body = \<lparr>chat_json = Some ''{}'', chat_chunks = []\<rparr>\<rparr>) = Inl (HTTPError 401)
   \<and> deliver False (\<lparr>status_code = 200, json_body = \<lparr>chat_json = Some ''{}'', chat_chunks = []\<rparr>\<rparr>) = Inr (Body ''{}'')"
proof -
  define v0 where "v0 = snd (ensure_valid_token signed_out_world)"
  have a1: "ensure_valid_token signed_out_world = (Inl ConnectionError, v0)"
    by (simp add: v0_def witness_defs)
  have a2: "(ensure_valid_token signed_out_world = (Inl ConnectionError, v0)) \<longrightarrow>
      make_request False signed_out_world = (Inl ConnectionError, v0)"
    by (rule make_request_retry_policy [where w = signed_out_world and ?w0.0 = v0 and ?e0.0 = ConnectionError and stream = False,
        THEN conjunct1])
  from a2 a1 have a3: "make_request False signed_out_world = (Inl ConnectionError, v0)"
    by (rule mp)
  have a: "fst (make_request False signed_out_world) = Inl ConnectionError"
    using a3 by (simp add: v0_def witness_defs)
  define x1 where "x1 = snd (post_chat (api_url (resource_url example_creds)) (''Bearer '' @ access_token example_creds) False example_world)"
  have b1: "ensure_valid_token example_world = (Inr (), example_world) \<and> oauth_creds example_world = Some example_creds
      \<and> post_chat (api_url (resource_url example_creds)) (''Bearer '' @ access_token example_creds) False example_world = (Inl ConnectionError, x1)"
    by (simp add: x1_def witness_defs)
  have b2: "(ensure_valid_token example_world = (Inr (), example_world) \<and> oauth_creds example_world = Some example_creds
      \<and> post_chat (api_url (resource_url example_creds)) (''Bearer '' @ access_token example_creds) False example_world = (Inl ConnectionError, x1)) \<longrightarrow>
      make_request False example_world = (Inl ConnectionError, x1)"
    by (rule make_request_retry_policy [where w = example_world and ?w0.0 = example_world and c = example_creds and stream = False and ?e1.0 = ConnectionError and ?w1.0 = x1,
        THEN conjunct2, THEN conjunct2, THEN conjunct1])
  from b2 b1 have b3: "make_request False example_world = (Inl ConnectionError, x1)"
    by (rule mp)
  have b: "fst (make_request False example_world) = Inl ConnectionError
      \<and> policy_trace (snd (make_request False example_world)) =
          [ChatPost example_url ''Bearer t0'' False]"
    using b3 by (simp add: x1_def witness_defs)
  define p1 where "p1 = snd (post_chat (api_url (resource_url example_creds)) (''Bearer '' @ access_token example_creds) False plain_world)"
  have c1: "ensure_valid_token plain_world = (Inr (), plain_world) \<and> oauth_creds plain_world = Some example_creds
      \<and> post_chat (api_url (resource_url example_creds)) (''Bearer '' @ access_token example_creds) False plain_world = (Inr (\<lparr>status_code = 200, json_body = \<lparr>chat_json = Some ''{}'', chat_chunks = []\<rparr>\<rparr>), p1)
      \<and> status_code (\<lparr>status_code = 200, json_body = \<lparr>chat_json = Some ''{}'', chat_chunks = []\<rparr>\<rparr>) \<notin> {400, 401, 403}"
    by (simp add: p1_def witness_defs)
  have c2: "(ensure_valid_token plain_world = (Inr (), plain_world) \<and> oauth_creds plain_world = Some example_creds
      \<and> post_chat (api_url (resource_url example_creds)) (''Bearer '' @ access_token example_creds) False plain_world = (Inr (\<lparr>status_code = 200, json_body = \<lparr>chat_json = Some ''{}'', chat_chunks = []\<rparr>\<rparr>), p1)
      \<and> status_code (\<lparr>status_code = 200, json_body = \<lparr>chat_json = Some ''{}'', chat_chunks = []\<rparr>\<rparr>) \<notin> {400, 401, 403}) \<longrightarrow>
      make_request False plain_world = (deliver False (\<lparr>status_code = 200, json_body = \<lparr>chat_json = Some ''{}'', chat_chunks = []\<rparr>\<rparr>), p1)"
    by (rule make_request_retry_policy [where w = plain_world and ?w0.0 = plain_world and c = example_creds and stream = False and response = "\<lparr>status_code = 200, json_body = \<lparr>chat_json = Some ''{}'', chat_chunks = []\<rparr>\<rparr>" and ?w1.0 = p1,
        THEN conjunct2, THEN conjunct2, THEN conjunct2, THEN conjunct1])
  from c2 c1 have c3: "make_request False plain_world = (deliver False (\<lparr>status_code = 200, json_body = \<lparr>chat_json = Some ''{}'', chat_chunks = []\<rparr>\<rparr>), p1)"
    by (rule mp)
  have c: "fst (make_request False plain_world) = Inr (Body ''{}'')
      \<and> policy_trace (snd (make_request False plain_world)) =
          [ChatPost example_url ''Bearer t0'' False]"
    using c3 by (simp add: p1_def witness_defs)
  define r1 where "r1 = snd (post_chat (api_url (resource_url example_creds)) (''Bearer '' @ access_token example_creds) False revoked_world)"
  define r2 where "r2 = snd (refresh_token_op r1)"
  define r3 where "r3 = snd (post_chat (api_url (resource_url example_creds)) (''Bearer '' @ access_token (\<lparr>access_token = ''t1'', refresh_token = ''r1'', token_type = ''Bearer'', resource_url = ''portal.qwen.ai'', expiry_date = 4601\<rparr>)) False r2)"
  have d1: "ensure_valid_token revoked_world = (Inr (), revoked_world) \<and> oauth_creds revoked_world = Some example_creds
      \<and> post_chat (api_url (resource_url example_creds)) (''Bearer '' @ access_token example_creds) False revoked_world = (Inr (\<lparr>status_code = 401, json_body = \<lparr>chat_json = Some ''{}'', chat_chunks = []\<rparr>\<rparr>), r1)
      \<and> status_code (\<lparr>status_code = 401, json_body = \<lparr>chat_json = Some ''{}'', chat_chunks = []\<rparr>\<rparr>) \<in> {400, 401, 403}
      \<and> refresh_token_op r1 = (Inr (), r2) \<and> oauth_creds r2 = Some (\<lparr>access_token = ''t1'', refresh_token = ''r1'', token_type = ''Bearer'', resource_url = ''portal.qwen.ai'', expiry_date = 4601\<rparr>)
      \<and> post_chat (api_url (resource_url example_creds)) (''Bearer '' @ access_token (\<lparr>access_token = ''t1'', refresh_token = ''r1'', token_type = ''Bearer'', resource_url = ''portal.qwen.ai'', expiry_date = 4601\<rparr>)) False r2 = (Inr (\<lparr>status_code = 200, json_body = \<lparr>chat_json = Some ''{}'', chat_chunks = []\<rparr>\<rparr>), r3)"
    by (simp add: r1_def r2_def r3_def witness_defs)
  have d2: "(ensure_valid_token revoked_world = (Inr (), revoked_world) \<and> oauth_creds revoked_world = Some example_creds
      \<and> post_chat (api_url (resource_url example_creds)) (''Bearer '' @ access_token example_creds) False revoked_world = (Inr (\<lparr>status_code = 401, json_body = \<lparr>chat_json = Some ''{}'', chat_chunks = []\<rparr>\<rparr>), r1)
      \<and> status_code (\<lparr>status_code = 401, json_body = \<lparr>chat_json = Some ''{}'', chat_chunks = []\<rparr>\<rparr>) \<in> {400, 401, 403}
      \<and> refresh_token_op r1 = (Inr (), r2) \<and> oauth_creds r2 = Some (\<lparr>access_token = ''t1'', refresh_token = ''r1'', token_type = ''Bearer'', resource_url = ''portal.qwen.ai'', expiry_date = 4601\<rparr>)
      \<and> post_chat (api_url (resource_url example_creds)) (''Bearer '' @ access_token (\<lparr>access_token = ''t1'', refresh_token = ''r1'', token_type = ''Bearer'', resource_url = ''portal.qwen.ai'', expiry_date = 4601\<rparr>)) False r2 = (Inr (\<lparr>status_code = 200, json_body = \<lparr>chat_json = Some ''{}'', chat_chunks = []\<rparr>\<rparr>), r3)) \<longrightarrow>
      make_request False revoked_world = (deliver False (\<lparr>status_code = 200, json_body = \<lparr>chat_json = Some ''{}'', chat_chunks = []\<rparr>\<rparr>), r3)
      \<and> policy_trace r3 = policy_trace revoked_world @
           [ChatPost (api_url (resource_url example_creds)) (''Bearer '' @ access_token example_creds) False, Refresh,
            ChatPost (api_url (resource_url example_creds)) (''Bearer '' @ access_token (\<lparr>access_token = ''t1'', refresh_token = ''r1'', token_type = ''Bearer'', resource_url = ''portal.qwen.ai'', expiry_date = 4601\<rparr>)) False]"
    by (rule make_request_retry_policy [where w = revoked_world and ?w0.0 = revoked_world and c = example_creds and stream = False and response = "\<lparr>status_code = 401, json_body = \<lparr>chat_json = Some ''{}'', chat_chunks = []\<rparr>\<rparr>" and ?w1.0 = r1 and ?w2.0 = r2 and ?c2.0 = "\<lparr>access_token = ''t1'', refresh_token = ''r1'', token_type = ''Bearer'', resource_url = ''portal.qwen.ai'', expiry_date = 4601\<rparr>" and ?response2.0 = "\<lparr>status_code = 200, json_body = \<lparr>chat_json = Some ''{}'', chat_chunks = []\<rparr>\<rparr>" and ?w3.0 = r3,
        THEN conjunct2, THEN conjunct2, THEN conjunct2, THEN conjunct2, THEN conjunct1])
  from d2 d1 have d3: "make_request False revoked_world = (deliver False (\<lparr>status_code = 200, json_body = \<lparr>chat_json = Some ''{}'', chat_chunks = []\<rparr>\<rparr>), r3)
      \<and> policy_trace r3 = policy_trace revoked_world @
           [ChatPost (api_url (resource_url example_creds)) (''Bearer '' @ access_token example_creds) False, Refresh,
            ChatPost (api_url (resource_url example_creds)) (''Bearer '' @ access_token (\<lparr>access_token = ''t1'', refresh_token = ''r1'', token_type = ''Bearer'', resource_url = ''portal.qwen.ai'', expiry_date = 4601\<rparr>)) False]"
    by (rule mp)
  have d: "fst (make_request False revoked_world) = Inr (Body ''{}'')
      \<and> policy_trace (snd (make_request False revoked_world)) =
          [ChatPost example_url ''Bearer t0'' False, Refresh,
           ChatPost example_url ''Bearer t1'' False]"
    using d3 by (simp add: r1_def r2_def r3_def witness_defs)
  define d1 where "d1 = snd (post_chat (api_url (resource_url example_creds)) (''Bearer '' @ access_token example_creds) False dropped_world)"
  define d2 where "d2 = snd (refresh_token_op d1)"
  define d3 where "d3 = snd (post_chat (api_url (resource_url example_creds)) (''Bearer '' @ access_token (\<lparr>access_token = ''t1'', refresh_token = ''r1'', token_type = ''Bearer'', resource_url = ''portal.qwen.ai'', expiry_date = 4601\<rparr>)) False d2)"
  have e1: "ensure_valid_token dropped_world = (Inr (), dropped_world) \<and> oauth_creds dropped_world = Some example_creds
      \<and> post_chat (api_url (resource_url example_creds)) (''Bearer '' @ access_token example_creds) False dropped_world = (Inr (\<lparr>status_code = 401, json_body = \<lparr>chat_json = Some ''{}'', chat_chunks = []\<rparr>\<rparr>), d1)
      \<and> status_code (\<lparr>status_code = 401, json_body = \<lparr>chat_json = Some ''{}'', chat_chunks = []\<rparr>\<rparr>) \<in> {400, 401, 403}
      \<and> refresh_token_op d1 = (Inr (), d2) \<and> oauth_creds d2 = Some (\<lparr>access_token = ''t1'', refresh_token = ''r1'', token_type = ''Bearer'', resource_url = ''portal.qwen.ai'', expiry_date = 4601\<rparr>)
      \<and> post_chat (api_url (resource_url example_creds)) (''Bearer '' @ access_token (\<lparr>access_token = ''t1'', refresh_token = ''r1'', token_type = ''Bearer'', resource_url = ''portal.qwen.ai'', expiry_date = 4601\<rparr>)) False d2 = (Inl ConnectionError, d3)"
    by (simp add: d1_def d2_def d3_def witness_defs)
  have e2: "(ensure_valid_token dropped_world = (Inr (), dropped_world) \<and> oauth_creds dropped_world = Some example_creds
      \<and> post_chat (api_url (resource_url example_creds)) (''Bearer '' @ access_token example_creds) False dropped_world = (Inr (\<lparr>status_code = 401, json_body = \<lparr>chat_json = Some ''{}'', chat_chunks = []\<rparr>\<rparr>), d1)
      \<and> status_code (\<lparr>status_code = 401, json_body = \<lparr>chat_json = Some ''{}'', chat_chunks = []\<rparr>\<rparr>) \<in> {400, 401, 403}
      \<and> refresh_token_op d1 = (Inr (), d2) \<and> oauth_creds d2 = Some (\<lparr>access_token = ''t1'', refresh_token = ''r1'', token_type = ''Bearer'', resource_url = ''portal.qwen.ai'', expiry_date = 4601\<rparr>)
      \<and> post_chat (api_url (resource_url example_creds)) (''Bearer '' @ access_token (\<lparr>access_token = ''t1'', refresh_token = ''r1'', token_type = ''Bearer'', resource_url = ''portal.qwen.ai'', expiry_date = 4601\<rparr>)) False d2 = (Inl ConnectionError, d3)) \<longrightarrow>
      make_request False dropped_world =
          (case authenticate_and_resend (api_url (resource_url example_creds)) False d3 of
             (Inl e', w') \<Rightarrow> (Inl e', w')
           | (Inr final', w') \<Rightarrow> (deliver False final', w'))
      \<and> (\<exists>t. policy_trace (snd (make_request False dropped_world)) = policy_trace dropped_world @
             ChatPost (api_url (resource_url example_creds)) (''Bearer '' @ access_token example_creds) False # Refresh
               # ChatPost (api_url (resource_url example_creds)) (''Bearer '' @ access_token (\<lparr>access_token = ''t1'', refresh_token = ''r1'', token_type = ''Bearer'', resource_url = ''portal.qwen.ai'', expiry_date = 4601\<rparr>)) False # Authenticate # t)"
    by (rule make_request_retry_policy [where w = dropped_world and ?w0.0 = dropped_world and c = example_creds and stream = False and response = "\<lparr>status_code = 401, json_body = \<lparr>chat_json = Some ''{}'', chat_chunks = []\<rparr>\<rparr>" and ?w1.0 = d1 and ?w2.0 = d2 and ?c2.0 = "\<lparr>access_token = ''t1'', refresh_token = ''r1'', token_type = ''Bearer'', resource_url = ''portal.qwen.ai'', expiry_date = 4601\<rparr>" and ?e3.0 = ConnectionError and ?w3.0 = d3,
        THEN conjunct2, THEN conjunct2, THEN conjunct2, THEN conjunct2, THEN conjunct2, THEN conjunct1])
  from e2 e1 have e3: "make_request False dropped_world =
          (case authenticate_and_resend (api_url (resource_url example_creds)) False d3 of
             (Inl e', w') \<Rightarrow> (Inl e', w')
           | (Inr final', w') \<Rightarrow> (deliver False final', w'))
      \<and> (\<exists>t. policy_trace (snd (make_request False dropped_world)) = policy_trace dropped_world @
             ChatPost (api_url (resource_url example_creds)) (''Bearer '' @ access_token example_creds) False # Refresh
               # ChatPost (api_url (resource_url example_creds)) (''Bearer '' @ access_token (\<lparr>access_token = ''t1'', refresh_token = ''r1'', token_type = ''Bearer'', resource_url = ''portal.qwen.ai'', expiry_date = 4601\<rparr>)) False # Authenticate # t)"
    by (rule mp)
  have e: "(\<exists>t. policy_trace (snd (make_request False dropped_world)) =
          ChatPost example_url ''Bearer t0'' False # Refresh
            # ChatPost example_url ''Bearer t1'' False # Authenticate # t)"
    using e3 by (simp add: d1_def d2_def d3_def witness_defs)
  define f1 where "f1 = snd (post_chat (api_url (resource_url example_creds)) (''Bearer '' @ access_token example_creds) False refused_world)"
  define f2 where "f2 = snd (refresh_token_op f1)"
  have f1: "ensure_valid_token refused_world = (Inr (), refused_world) \<and> oauth_creds refused_world = Some example_creds
      \<and> post_chat (api_url (resource_url example_creds)) (''Bearer '' @ access_token example_creds) False refused_world = (Inr (\<lparr>status_code = 403, json_body = \<lparr>chat_json = Some ''{}'', chat_chunks = []\<rparr>\<rparr>), f1)
      \<and> status_code (\<lparr>status_code = 403, json_body = \<lparr>chat_json = Some ''{}'', chat_chunks = []\<rparr>\<rparr>) \<in> {400, 401, 403}
      \<and> refresh_token_op f1 = (Inl (Exception ''Failed to refresh token. Please re-authenticate.''), f2)"
    by (simp add: f1_def f2_def witness_defs)
  have f2: "(ensure_valid_token refused_world = (Inr (), refused_world) \<and> oauth_creds refused_world = Some example_creds
      \<and> post_chat (api_url (resource_url example_creds)) (''Bearer '' @ access_token example_creds) False refused_world = (Inr (\<lparr>status_code = 403, json_body = \<lparr>chat_json = Some ''{}'', chat_chunks = []\<rparr>\<rparr>), f1)
      \<and> status_code (\<lparr>status_code = 403, json_body = \<lparr>chat_json = Some ''{}'', chat_chunks = []\<rparr>\<rparr>) \<in> {400, 401, 403}
      \<and> refresh_token_op f1 = (Inl (Exception ''Failed to refresh token. Please re-authenticate.''), f2)) \<longrightarrow>
      make_request False refused_world =
          (case authenticate_and_resend (api_url (resource_url example_creds)) False f2 of
             (Inl e', w') \<Rightarrow> (Inl e', w')
           | (Inr final', w') \<Rightarrow> (deliver False final', w'))
      \<and> (\<exists>t. policy_trace (snd (make_request False refused_world)) = policy_trace refused_world @
             ChatPost (api_url (resource_url example_creds)) (''Bearer '' @ access_token example_creds) False # Refresh # Authenticate # t)"
    by (rule make_request_retry_policy [where w = refused_world and ?w0.0 = refused_world and c = example_creds and stream = False and response = "\<lparr>status_code = 403, json_body = \<lparr>chat_json = Some ''{}'', chat_chunks = []\<rparr>\<rparr>" and ?w1.0 = f1 and ?w2.0 = f2 and ?e2.0 = "Exception ''Failed to refresh token. Please re-authenticate.''",
        THEN conjunct2, THEN conjunct2, THEN conjunct2, THEN conjunct2, THEN conjunct2, THEN conjunct2, THEN conjunct1])
  from f2 f1 have f3: "make_request False refused_world =
          (case authenticate_and_resend (api_url (resource_url example_creds)) False f2 of
             (Inl e', w') \<Rightarrow> (Inl e', w')
           | (Inr final', w') \<Rightarrow> (deliver False final', w'))
      \<and> (\<exists>t. policy_trace (snd (make_request False refused_world)) = policy_trace refused_world @
             ChatPost (api_url (resource_url example_creds)) (''Bearer '' @ access_token example_creds) False # Refresh # Authenticate # t)"
    by (rule mp)
  have f: "(\<exists>t. policy_trace (snd (make_request False refused_world)) =
          ChatPost example_url ''Bearer t0'' False # Refresh # Authenticate # t)"
    using f3 by (simp add: f1_def f2_def witness_defs)
  have g1: "raises_for_status (status_code (\<lparr>status_code = 401, json_body = \<lparr>chat_json = Some ''{}'', chat_chunks = []\<rparr>\<rparr>))"
    by (simp add:  witness_defs)
  have g2: "(raises_for_status (status_code (\<lparr>status_code = 401, json_body = \<lparr>chat_json = Some ''{}'', chat_chunks = []\<rparr>\<rparr>))) \<longrightarrow>
      deliver False (\<lparr>status_code = 401, json_body = \<lparr>chat_json = Some ''{}'', chat_chunks = []\<rparr>\<rparr>) = Inl (HTTPError (status_code (\<lparr>status_code = 401, json_body = \<lparr>chat_json = Some ''{}'', chat_chunks = []\<rparr>\<rparr>)))"
    by (rule make_request_retry_policy [where final = "\<lparr>status_code = 401, json_body = \<lparr>chat_json = Some ''{}'', chat_chunks = []\<rparr>\<rparr>" and stream = False,
        THEN conjunct2, THEN conjunct2, THEN conjunct2, THEN conjunct2, THEN conjunct2, THEN conjunct2, THEN conjunct2, THEN conjunct1])
  from g2 g1 have g3: "deliver False (\<lparr>status_code = 401, json_body = \<lparr>chat_json = Some ''{}'', chat_chunks = []\<rparr>\<rparr>) = Inl (HTTPError (status_code (\<lparr>status_code = 401, json_body = \<lparr>chat_json = Some ''{}'', chat_chunks = []\<rparr>\<rparr>)))"
    by (rule mp)
  have g: "deliver False (\<lparr>status_code = 401, json_body = \<lparr>chat_json = Some ''{}'', chat_chunks = []\<rparr>\<rparr>) = Inl (HTTPError 401)"
    using g3 by (simp add:  witness_defs)
  have h1: "\<not> raises_for_status (status_code (\<lparr>status_code = 200, json_body = \<lparr>chat_json = Some ''{}'', chat_chunks = []\<rparr>\<rparr>)) \<and> chat_json (json_body (\<lparr>status_code = 200, json_body = \<lparr>chat_json = Some ''{}'', chat_chunks = []\<rparr>\<rparr>)) = Some ''{}''"
    by (simp add:  witness_defs)
  have h2: "(\<not> raises_for_status (status_code (\<lparr>status_code = 200, json_body = \<lparr>chat_json = Some ''{}'', chat_chunks = []\<rparr>\<rparr>)) \<and> chat_json (json_body (\<lparr>status_code = 200, json_body = \<lparr>chat_json = Some ''{}'', chat_chunks = []\<rparr>\<rparr>)) = Some ''{}'') \<longrightarrow>
      deliver False (\<lparr>status_code = 200, json_body = \<lparr>chat_json = Some ''{}'', chat_chunks = []\<rparr>\<rparr>) = Inr (Body ''{}'')"
    by (rule make_request_retry_policy [where final = "\<lparr>status_code = 200, json_body = \<lparr>chat_json = Some ''{}'', chat_chunks = []\<rparr>\<rparr>" and body = "''{}''",
        THEN conjunct2, THEN conjunct2, THEN conjunct2, THEN conjunct2, THEN conjunct2, THEN conjunct2, THEN conjunct2, THEN conjunct2, THEN conjunct1])
  from h2 h1 have h3: "deliver False (\<lparr>status_code = 200, json_body = \<lparr>chat_json = Some ''{}'', chat_chunks = []\<rparr>\<rparr>) = Inr (Body ''{}'')"
    by (rule mp)
  have h: "deliver False (\<lparr>status_code = 200, json_body = \<lparr>chat_json = Some ''{}'', chat_chunks = []\<rparr>\<rparr>) = Inr (Body ''{}'')"
    using h3 by (simp add:  witness_defs)
  from a b c d e f g h show ?thesis
    by simp
qed

text \<open>
  C1, as stated, fails: re-authorization is not performed only when the refresh raises. The
  resend stands inside the same \<^verbatim>\<open>try\<close> block as the refresh, so after a 401 and a refresh
  that succeeds, a resend that raises (here the connection fails) is handled by the device
  flow as well.
\<close>

theorem make_request_reauthorizes_after_refresh:
  "fst (refresh_token_op (snd (post_chat example_url ''Bearer t0'' False dropped_world))) = Inr ()
   \<and> fst (make_request False dropped_world) = Inl ConnectionError
   \<and> events (snd (make_request False dropped_world)) =
       [ChatPost example_url ''Bearer t0'' False, Refresh, TokenPost (RefreshTokenGrant ''r0''),
        ChatPost example_url ''Bearer t1'' False, Authenticate, DevicePost]"
  by (simp add: dropped_world_def example_defs run_defs)

section \<open>Failures of the refresh\<close>

lemma post_token_Cons_plain:
  "token_endpoint w = r # rs \<Longrightarrow>
   post_token g w =
     (outcome r, w\<lparr>clock := clock w + delay r, token_endpoint := rs,
                   events := events w @ [TokenPost g]\<rparr>)"
  by (simp add: post_token_def log_event_def)

lemma refresh_token_op_sends:
  assumes "oauth_creds w = Some c"
  shows "events (snd (refresh_token_op w)) =
     events w @ [Refresh, TokenPost (RefreshTokenGrant (refresh_token c))]"
proof -
  let ?w0 = "log_event Refresh w"
  let ?g = "RefreshTokenGrant (refresh_token c)"
  obtain x w1 where post: "post_token ?g ?w0 = (x, w1)"
    by (cases "post_token ?g ?w0")
  then have e: "events w1 = events w @ [Refresh, TokenPost ?g]"
    by (auto simp: post_token_def log_event_def split: list.splits)
  have c: "oauth_creds ?w0 = Some c"
    using assms by (simp add: log_event_def)
  from c post e show ?thesis
    by (simp add: refresh_token_op_def Let_def refresh_success_def save_oauth_creds_def
        split: sum.splits option.splits)
qed

text \<open>
  C6, as stated, fails: with a credential in memory whose refresh token is empty,
  \<^verbatim>\<open>_refresh_token\<close> does not raise the no-credential exception. It sends the empty refresh
  token to the token endpoint, and here the endpoint grants it.
\<close>

theorem refresh_token_op_tokenless:
  "oauth_creds tokenless_world = Some (example_creds\<lparr>refresh_token := ''''\<rparr>)
   \<and> refresh_token (example_creds\<lparr>refresh_token := ''''\<rparr>) = ''''
   \<and> fst (refresh_token_op tokenless_world) = Inr ()
   \<and> fst (refresh_token_op tokenless_world) \<noteq> Inl (Exception ''No credentials to refresh.'')
   \<and> events (snd (refresh_token_op tokenless_world)) =
       [Refresh, TokenPost (RefreshTokenGrant '''')]"
  by (simp add: tokenless_world_def example_defs run_defs)

text \<open>
  C6, amended. \<^verbatim>\<open>_refresh_token\<close> fails with the no-credential exception, and sends no
  request, whenever the credential itself is absent; with a credential present it sends
  the refresh request whatever the refresh token is; and on a response whose status is not
  200 it clears the credential in memory, deletes the credential file and fails with the
  refresh-failed exception.
\<close>

theorem refresh_token_op_failures:
  "(oauth_creds w = None \<longrightarrow>
      refresh_token_op w = (Inl (Exception ''No credentials to refresh.''), log_event Refresh w))
   \<and> (oauth_creds w = Some c \<and> token_endpoint w = r # rs \<and> outcome r = Inr response
        \<and> status_code response \<noteq> 200 \<longrightarrow>
      (\<exists>w'. refresh_token_op w =
            (Inl (Exception ''Failed to refresh token. Please re-authenticate.''), w')
         \<and> oauth_creds w' = None \<and> creds_file w' = None
         \<and> events w' = events w @ [Refresh, TokenPost (RefreshTokenGrant (refresh_token c))]))
   \<and> (oauth_creds w = Some c \<longrightarrow>
      events (snd (refresh_token_op w)) =
        events w @ [Refresh, TokenPost (RefreshTokenGrant (refresh_token c))])"
proof (intro conjI impI)
  assume "oauth_creds w = None"
  then show "refresh_token_op w =
      (Inl (Exception ''No credentials to refresh.''), log_event Refresh w)"
    by (simp add: refresh_token_op_def Let_def log_event_def)
next
  assume a: "oauth_creds w = Some c \<and> token_endpoint w = r # rs \<and> outcome r = Inr response
        \<and> status_code response \<noteq> 200"
  let ?w0 = "log_event Refresh w"
  from a have "oauth_creds ?w0 = Some c" "token_endpoint ?w0 = r # rs"
    by (simp_all add: log_event_def)
  with a show "\<exists>w'. refresh_token_op w =
            (Inl (Exception ''Failed to refresh token. Please re-authenticate.''), w')
         \<and> oauth_creds w' = None \<and> creds_file w' = None
         \<and> events w' = events w @ [Refresh, TokenPost (RefreshTokenGrant (refresh_token c))]"
    by (simp add: refresh_token_op_def Let_def post_token_Cons_plain) (simp add: log_event_def)
next
  assume "oauth_creds w = Some c"
  then show "events (snd (refresh_token_op w)) =
        events w @ [Refresh, TokenPost (RefreshTokenGrant (refresh_token c))]"
    by (rule refresh_token_op_sends)
qed

theorem refresh_token_op_failures_witness:
  "oauth_creds signed_out_world = None
   \<and> refresh_token_op signed_out_world =
       (Inl (Exception ''No credentials to refresh.''), log_event Refresh signed_out_world)
   \<and> oauth_creds refused_world = Some example_creds
   \<and> token_endpoint refused_world = [error_reply ''invalid_grant'']
   \<and> (\<exists>w'. refresh_token_op refused_world =
            (Inl (Exception ''Failed to refresh token. Please re-authenticate.''), w')
         \<and> oauth_creds w' = None \<and> creds_file w' = None
         \<and> events w' = events refused_world
              @ [Refresh, TokenPost (RefreshTokenGrant (refresh_token example_creds))])
   \<and> events (snd (refresh_token_op tokenless_world)) =
       events tokenless_world @ [Refresh,
         TokenPost (RefreshTokenGrant (refresh_token (example_creds\<lparr>refresh_token := ''''\<rparr>)))]"
proof -
  have a: "oauth_creds signed_out_world = None"
    by (simp add: signed_out_world_def example_world_def)
  from a refresh_token_op_failures [where w = signed_out_world, THEN conjunct1]
  have b: "refresh_token_op signed_out_world =
       (Inl (Exception ''No credentials to refresh.''), log_event Refresh signed_out_world)"
    by (rule rev_mp)
  have c: "oauth_creds refused_world = Some example_creds"
    and d: "token_endpoint refused_world = [error_reply ''invalid_grant'']"
    by (simp_all add: refused_world_def example_world_def)
  have "oauth_creds refused_world = Some example_creds
      \<and> token_endpoint refused_world = error_reply ''invalid_grant'' # []
      \<and> outcome (error_reply ''invalid_grant'') =
          Inr (\<lparr>status_code = 400,
        json_body = Some \<lparr>tb_access_token = None, tb_refresh_token = None,
          tb_token_type = None, tb_resource_url = None, tb_expires_in = None,
          tb_error = Some ''invalid_grant'', tb_error_description = Some ''no''\<rparr>\<rparr>)
      \<and> status_code (\<lparr>status_code = 400,
        json_body = Some \<lparr>tb_access_token = None, tb_refresh_token = None,
          tb_token_type = None, tb_resource_url = None, tb_expires_in = None,
          tb_error = Some ''invalid_grant'', tb_error_description = Some ''no''\<rparr>\<rparr>) \<noteq> 200"
    using c d by (simp add: error_reply_def)
  from this refresh_token_op_failures [where w = refused_world and c = example_creds
      and r = "error_reply ''invalid_grant''" and rs = "[]", THEN conjunct2, THEN conjunct1]
  have e: "\<exists>w'. refresh_token_op refused_world =
            (Inl (Exception ''Failed to refresh token. Please re-authenticate.''), w')
         \<and> oauth_creds w' = None \<and> creds_file w' = None
         \<and> events w' = events refused_world
              @ [Refresh, TokenPost (RefreshTokenGrant (refresh_token example_creds))]"
    by (rule rev_mp)
  have "oauth_creds tokenless_world = Some (example_creds\<lparr>refresh_token := ''''\<rparr>)"
    by (simp add: tokenless_world_def example_world_def)
  from this refresh_token_op_failures [where w = tokenless_world
      and c = "example_creds\<lparr>refresh_token := ''''\<rparr>", THEN conjunct2, THEN conjunct2]
  have f: "events (snd (refresh_token_op tokenless_world)) =
       events tokenless_world @ [Refresh,
         TokenPost (RefreshTokenGrant (refresh_token (example_creds\<lparr>refresh_token := ''''\<rparr>)))]"
    by (rule rev_mp)
  from a b c d e f show ?thesis by simp
qed

section \<open>The lines of the stream\<close>

lemma run_hello:
  "fst (make_request True hello_world) = Inr (Stream [''Hello'', '' world''])"
  by (simp add: hello_world_def example_defs run_defs)

lemma run_impatient:
  "fst (make_request True impatient_world) = Inl (Exception ''OAuth device flow timed out.'')"
  by (simp add: impatient_world_def example_defs run_defs example_device_def poll_for_token_def)

lemma translate_chunks:
  "translate dump cid t m chunks ending =
     map (\<lambda>chunk. frame (dump (chunk_response cid t m chunk))) chunks
       @ translate dump cid t m [] ending"
  by (induction chunks) simp_all

lemma py_repr_plain:
  "py_repr ''error'' = squote # ''error'' @ [squote]"
  "py_repr ''message'' = squote # ''message'' @ [squote]"
  "py_repr ''type'' = squote # ''type'' @ [squote]"
  "py_repr ''internal_error'' = squote # ''internal_error'' @ [squote]"
  "py_repr ''boom'' = squote # ''boom'' @ [squote]"
  "py_repr ''OAuth device flow timed out.'' = squote # ''OAuth device flow timed out.'' @ [squote]"
  by (simp_all add: py_repr_def repr_char_def isprintable_def squote_def dquote_def backslash_def
      Let_def)

lemma error_response_repr:
  "error_response message =
     ''{'error': {'message': '' @ py_repr message @ '', 'type': 'internal_error'}}''"
  by (simp add: error_response_def py_repr_plain squote_def)

lemma generate_stream_lines:
  "fst (generate_stream dump library not_awaitable cid t m w) =
     [frame (error_response
        (case fst (make_request True w) of
           Inl e \<Rightarrow> exception_text library e
         | Inr returned \<Rightarrow> not_awaitable returned)),
      frame ''[DONE]'']"
  by (cases "make_request True w")
     (simp add: generate_stream_def generate_stream_from_def await_value_def split: sum.splits)

text \<open>
  The loop of lines 123 to 150 and the lines after it are written as the spec describes
  the stream translator: were they given a source that ends normally, they would yield one
  line per chunk, the stop event and the sentinel.
\<close>

lemma generate_stream_from_normal_end:
  "generate_stream_from dump cid t m (Inr (chunks, EndOfStream)) =
     map (\<lambda>chunk. ''data: ''
            @ dump \<lparr>id_field = cid, created = t, model = m,
                choices = [\<lparr>index = 0, delta = [(''content'', chunk)], finish_reason = None\<rparr>]\<rparr>
            @ [CHR 0x0A, CHR 0x0A]) chunks
     @ [''data: ''
          @ dump \<lparr>id_field = cid, created = t, model = m,
              choices = [\<lparr>index = 0, delta = [], finish_reason = Some ''stop''\<rparr>]\<rparr>
          @ [CHR 0x0A, CHR 0x0A],
        ''data: [DONE]'' @ [CHR 0x0A, CHR 0x0A]]"
  by (simp add: generate_stream_from_def translate_chunks [of _ _ _ _ chunks] frame_def
      chunk_response_def final_response_def newline_def)

text \<open>
  C7. The claim: for a source that yields \<^verbatim>\<open>Hello\<close> and \<^verbatim>\<open> world\<close> and ends normally, the
  generator yields the two deltas, the stop event and the sentinel. It does not: line 120
  awaits what the plain function \<^verbatim>\<open>make_request\<close> returned, the \<^verbatim>\<open>await\<close> raises
  \<^verbatim>\<open>TypeError\<close> inside the \<^verbatim>\<open>try\<close>, and the loop is never entered. With an upstream that
  answers 200 with these two chunks, \<^verbatim>\<open>make_request\<close> returns its generator over them and
  the adapter yields one error line and \<^verbatim>\<open>data: [DONE]\<close>; in every state it yields exactly
  these two lines, and never a delta.
\<close>

theorem generate_stream_never_iterates:
  "fst (make_request True hello_world) = Inr (Stream [''Hello'', '' world''])
   \<and> fst (generate_stream dump library not_awaitable cid t m hello_world) =
       [''data: {'error': {'message': ''
          @ py_repr (not_awaitable (Stream [''Hello'', '' world'']))
          @ '', 'type': 'internal_error'}}'' @ [CHR 0x0A, CHR 0x0A],
        ''data: [DONE]'' @ [CHR 0x0A, CHR 0x0A]]
   \<and> fst (generate_stream dump library not_awaitable cid t m hello_world) \<noteq>
      [''data: ''
          @ dump \<lparr>id_field = cid, created = t, model = m,
              choices = [\<lparr>index = 0, delta = [(''content'', ''Hello'')], finish_reason = None\<rparr>]\<rparr>
          @ [CHR 0x0A, CHR 0x0A],
       ''data: ''
          @ dump \<lparr>id_field = cid, created = t, model = m,
              choices = [\<lparr>index = 0, delta = [(''content'', '' world'')], finish_reason = None\<rparr>]\<rparr>
          @ [CHR 0x0A, CHR 0x0A],
       ''data: ''
          @ dump \<lparr>id_field = cid, created = t, model = m,
              choices = [\<lparr>index = 0, delta = [], finish_reason = Some ''stop''\<rparr>]\<rparr>
          @ [CHR 0x0A, CHR 0x0A],
       ''data: [DONE]'' @ [CHR 0x0A, CHR 0x0A]]
   \<and> (\<forall>w. \<exists>message.
         fst (generate_stream dump library not_awaitable cid t m w) =
           [''data: {'error': {'message': '' @ py_repr message
              @ '', 'type': 'internal_error'}}'' @ [CHR 0x0A, CHR 0x0A],
            ''data: [DONE]'' @ [CHR 0x0A, CHR 0x0A]])"
proof -
  have a: "fst (make_request True hello_world) = Inr (Stream [''Hello'', '' world''])"
    by (rule run_hello)
  have b: "fst (generate_stream dump library not_awaitable cid t m hello_world) =
       [''data: {'error': {'message': ''
          @ py_repr (not_awaitable (Stream [''Hello'', '' world'']))
          @ '', 'type': 'internal_error'}}'' @ [CHR 0x0A, CHR 0x0A],
        ''data: [DONE]'' @ [CHR 0x0A, CHR 0x0A]]"
    by (simp add: generate_stream_lines a frame_def error_response_repr newline_def)
  have c: "length (fst (generate_stream dump library not_awaitable cid t m hello_world)) = 2"
    by (simp add: generate_stream_lines)
  have d: "\<exists>message.
         fst (generate_stream dump library not_awaitable cid t m w) =
           [''data: {'error': {'message': '' @ py_repr message
              @ '', 'type': 'internal_error'}}'' @ [CHR 0x0A, CHR 0x0A],
            ''data: [DONE]'' @ [CHR 0x0A, CHR 0x0A]]" for w
    by (rule exI [of _ "case fst (make_request True w) of
           Inl e \<Rightarrow> exception_text library e
         | Inr returned \<Rightarrow> not_awaitable returned"])
       (simp add: generate_stream_lines frame_def error_response_repr newline_def)
  from c have e: "fst (generate_stream dump library not_awaitable cid t m hello_world) \<noteq>
      [''data: ''
          @ dump \<lparr>id_field = cid, created = t, model = m,
              choices = [\<lparr>index = 0, delta = [(''content'', ''Hello'')], finish_reason = None\<rparr>]\<rparr>
          @ [CHR 0x0A, CHR 0x0A],
       ''data: ''
          @ dump \<lparr>id_field = cid, created = t, model = m,
              choices = [\<lparr>index = 0, delta = [(''content'', '' world'')], finish_reason = None\<rparr>]\<rparr>
          @ [CHR 0x0A, CHR 0x0A],
       ''data: ''
          @ dump \<lparr>id_field = cid, created = t, model = m,
              choices = [\<lparr>index = 0, delta = [], finish_reason = Some ''stop''\<rparr>]\<rparr>
          @ [CHR 0x0A, CHR 0x0A],
       ''data: [DONE]'' @ [CHR 0x0A, CHR 0x0A]]"
    by (metis length_Cons list.size(3) numeral_2_eq_2 nat.inject Zero_neq_Suc)
  from a b e d show ?thesis by (intro conjI allI)
qed

text \<open>
  C2. When an exception is raised in the \<^verbatim>\<open>try\<close>, the generator yields one error line and
  \<^verbatim>\<open>data: [DONE]\<close>, after the lines of the chunks read so far, and nothing is raised. The
  error line, however, is not the JSON encoding of the error object: the dictionary is
  formatted into the f-string, so the line carries its \<^verbatim>\<open>repr\<close>, with single quotes. With
  no credential and a device authorization that times out, \<^verbatim>\<open>make_request\<close> raises and the
  line is
  \<^verbatim>\<open>data: {'error': {'message': 'OAuth device flow timed out.', 'type': 'internal_error'}}\<close>;
  in every state the one error line has this form; and for an exception whose text is
  \<^verbatim>\<open>boom\<close>, raised by the call or by the source, the line is
  \<^verbatim>\<open>data: {'error': {'message': 'boom', 'type': 'internal_error'}}\<close>.
\<close>

theorem generate_stream_error_frame:
  \<open>fst (make_request True impatient_world) = Inl (Exception ''OAuth device flow timed out.'')
   \<and> fst (generate_stream dump library not_awaitable cid t m impatient_world) =
       [''data: {'error': {'message': 'OAuth device flow timed out.', 'type': 'internal_error'}}''
          @ [CHR 0x0A, CHR 0x0A],
        ''data: [DONE]'' @ [CHR 0x0A, CHR 0x0A]]
   \<and> fst (generate_stream dump library not_awaitable cid t m impatient_world) \<noteq>
       [''data: {"error": {"message": "OAuth device flow timed out.", "type": "internal_error"}}''
          @ [CHR 0x0A, CHR 0x0A],
        ''data: [DONE]'' @ [CHR 0x0A, CHR 0x0A]]
   \<and> (\<forall>w. fst (generate_stream dump library not_awaitable cid t m w) =
       [''data: {'error': {'message': ''
          @ py_repr (case fst (make_request True w) of
                       Inl e \<Rightarrow> exception_text library e
                     | Inr returned \<Rightarrow> not_awaitable returned)
          @ '', 'type': 'internal_error'}}'' @ [CHR 0x0A, CHR 0x0A],
        ''data: [DONE]'' @ [CHR 0x0A, CHR 0x0A]])
   \<and> generate_stream_from dump cid t m (Inr (chunks, Failure ''boom'')) =
     map (\<lambda>chunk. frame (dump (chunk_response cid t m chunk))) chunks
     @ [''data: {'error': {'message': 'boom', 'type': 'internal_error'}}'' @ [CHR 0x0A, CHR 0x0A],
        ''data: [DONE]'' @ [CHR 0x0A, CHR 0x0A]]
   \<and> generate_stream_from dump cid t m (Inr ([], Failure ''boom'')) \<noteq>
       [''data: {"error": {"message": "boom", "type": "internal_error"}}'' @ [CHR 0x0A, CHR 0x0A],
        ''data: [DONE]'' @ [CHR 0x0A, CHR 0x0A]]
   \<and> generate_stream_from dump cid t m (Inl ''boom'') =
       [''data: {'error': {'message': 'boom', 'type': 'internal_error'}}'' @ [CHR 0x0A, CHR 0x0A],
        ''data: [DONE]'' @ [CHR 0x0A, CHR 0x0A]]
   \<and> (\<forall>message. generate_stream_from dump cid t m (Inr ([], Failure message)) =
       [''data: {'error': {'message': '' @ py_repr message @ '', 'type': 'internal_error'}}''
          @ [CHR 0x0A, CHR 0x0A],
        ''data: [DONE]'' @ [CHR 0x0A, CHR 0x0A]])\<close>
  by (simp add: generate_stream_lines run_impatient exception_text_def
      generate_stream_from_def translate_chunks [of _ _ _ _ chunks] frame_def
      error_response_repr py_repr_plain squote_def newline_def)

end
